theory Spec2Isabelle
  imports Main "HOL-Library.AList"
begin

section \<open>rwmap: specializing the map template\<close>

text \<open>
  The program (\<^verbatim>\<open>rwmap/main.go\<close>) parses a Go template of a lock-protected map whose
  keys and values have type \<^verbatim>\<open>interface{}\<close>, rewrites the syntax tree for a key type and
  a value type given on the command line, renames the container type and prints the tree.
  The tree is modelled by datatypes after \<^verbatim>\<open>go/ast\<close>; a run of \<^verbatim>\<open>astutil.Apply\<close> with a
  callback is a recursive function over the tree; a panic is a value of type \<open>error\<close>.
\<close>

subsection \<open>Errors\<close>

text \<open>
  \<^verbatim>\<open>check\<close> and \<^verbatim>\<open>expect\<close> panic with a \<^verbatim>\<open>genError\<close>, which \<^verbatim>\<open>catch\<close> turns into the
  returned error; every other panic (an index out of range, a failed type assertion, a nil
  dereference, the string panic of \<^verbatim>\<open>setPos\<close>) passes through \<^verbatim>\<open>catch\<close> and ends the
  process. \<open>GenError fmt args\<close> stands for \<^verbatim>\<open>genError{fmt.Sprintf(fmt, args...)}\<close>, with
  the arguments that are text; an argument that is a count or a node is left out.
\<close>

datatype error = GenError string "string list" | Panic string

fun bindE :: "error + 'a \<Rightarrow> ('a \<Rightarrow> error + 'b) \<Rightarrow> error + 'b" where
  "bindE (Inl e) f = Inl e"
| "bindE (Inr x) f = f x"

fun seqE :: "(error + 'a) list \<Rightarrow> error + 'a list" where
  "seqE [] = Inr []"
| "seqE (r # rs) = bindE r (\<lambda>y. bindE (seqE rs) (\<lambda>ys. Inr (y # ys)))"

fun seqO :: "(error + 'a) option \<Rightarrow> error + 'a option" where
  "seqO None = Inr None"
| "seqO (Some r) = bindE r (\<lambda>y. Inr (Some y))"

abbreviation mapE :: "('a \<Rightarrow> error + 'b) \<Rightarrow> 'a list \<Rightarrow> error + 'b list" where
  "mapE f xs \<equiv> seqE (map f xs)"

abbreviation optE :: "('a \<Rightarrow> error + 'b) \<Rightarrow> 'a option \<Rightarrow> error + 'b option" where
  "optE f x \<equiv> seqO (map_option f x)"

text \<open>\<^verbatim>\<open>check(err, msg, args...)\<close> and \<^verbatim>\<open>expect(cond, msg, args...)\<close>.\<close>

definition check :: "string + 'a \<Rightarrow> string \<Rightarrow> string list \<Rightarrow> error + 'a" where
  "check r msg args =
     (case r of Inl err \<Rightarrow> Inl (GenError (msg @ '': %s'') (args @ [err])) | Inr x \<Rightarrow> Inr x)"

definition expect :: "bool \<Rightarrow> string \<Rightarrow> string list \<Rightarrow> error + unit" where
  "expect cond msg args = (if cond then Inr () else Inl (GenError msg args))"

subsection \<open>Syntax trees\<close>

text \<open>
  The node types of \<^verbatim>\<open>go/ast\<close> that the template and a type expression are made of, with
  the children \<^verbatim>\<open>astutil.Apply\<close> walks. An identifier is its name. Positions, comments and
  struct tags are left out, and so is the \<^verbatim>\<open>Obj\<close> link of an identifier. A nil pointer is
  \<open>None\<close>. A \<^verbatim>\<open>*ast.BlockStmt\<close> body is its statement list. Function literals do not occur in
  the template, so an expression holds no statement.
\<close>

datatype expr =
    Ident string
  | BasicLit string
  | CompositeLit "expr option" "expr list"
  | ParenExpr expr
  | SelectorExpr expr string
  | IndexExpr expr expr
  | CallExpr expr "expr list"
  | StarExpr expr
  | UnaryExpr string expr
  | BinaryExpr expr string expr
  | ArrayType "expr option" expr
  | StructType field_list
  | FuncType field_list "field_list option"
  | InterfaceType field_list
  | MapType expr expr
  | ChanType expr
and field = Field "string list" expr
and field_list = FieldList "field list"

datatype stmt =
    ExprStmt expr
  | AssignStmt "expr list" string "expr list"
  | IncDecStmt expr string
  | DeferStmt expr
  | ReturnStmt "expr list"
  | BranchStmt string "string option"
  | BlockStmt "stmt list"
  | IfStmt "stmt option" expr "stmt list" "stmt option"
  | RangeStmt "expr option" "expr option" string expr "stmt list"

text \<open>
  \<^verbatim>\<open>ast.FuncDecl\<close>; \<open>Params\<close> and \<open>Results\<close> are \<^verbatim>\<open>Type.Params\<close> and \<^verbatim>\<open>Type.Results\<close>.
\<close>

record FuncDecl =
  Recv :: "field_list option"
  Name :: string
  Params :: field_list
  Results :: "field_list option"
  Body :: "stmt list option"

text \<open>
  \<^verbatim>\<open>ast.TypeSpec\<close> is its \<^verbatim>\<open>Name\<close> and \<^verbatim>\<open>Type\<close>, \<^verbatim>\<open>ast.ValueSpec\<close> its \<^verbatim>\<open>Names\<close>, \<^verbatim>\<open>Type\<close>
  and \<^verbatim>\<open>Values\<close>, \<^verbatim>\<open>ast.ImportSpec\<close> its \<^verbatim>\<open>Name\<close> and the path without the quotes.
\<close>

type_synonym TypeSpec = "string \<times> expr"

type_synonym ValueSpec = "string list \<times> expr option \<times> expr list"

datatype spec =
    ImportSpec "string option" string
  | TypeSpec TypeSpec
  | ValueSpec ValueSpec

datatype decl = FuncD FuncDecl | GenDecl string "spec list" | BadDecl

record File =
  PkgName :: string
  Decls :: "decl list"

subsection \<open>The library\<close>

text \<open>
  The functions of Go's library that the program calls on text. They are arguments of the
  model: every theorem below holds for whatever they compute.
  \<^item> \<open>ParseExpr\<close> is \<^verbatim>\<open>parser.ParseExpr\<close>: the parser's error text, or the tree;
  \<^item> \<open>FormatNode\<close> is \<^verbatim>\<open>format.Node\<close> into a fresh buffer: the error text, or the printed
    text;
  \<^item> \<open>Title\<close> and \<open>ToLower\<close> are \<^verbatim>\<open>strings.Title\<close> and \<^verbatim>\<open>strings.ToLower\<close>.
\<close>

record golib =
  ParseExpr :: "string \<Rightarrow> string + expr"
  FormatNode :: "expr \<Rightarrow> string + string"
  Title :: "string \<Rightarrow> string"
  ToLower :: "string \<Rightarrow> string"

subsection \<open>Parsing a type expression: \<^verbatim>\<open>expr\<close> and \<^verbatim>\<open>setPos\<close>\<close>

text \<open>
  \<^verbatim>\<open>setPos\<close> writes a position into the nodes it knows and panics with a string on any
  other node; the model keeps the panic and drops the position. Of a field list it visits
  the first field only; of an array type, the element type only. A nil \<^verbatim>\<open>Results\<close> list
  is the early return on \<^verbatim>\<open>reflect.ValueOf(n).IsNil()\<close>.
\<close>

fun setPos :: "expr \<Rightarrow> error + unit"
  and setPos_Field :: "field \<Rightarrow> error + unit"
  and setPos_FieldList :: "field_list \<Rightarrow> error + unit" where
  "setPos (Ident n) = Inr ()"
| "setPos (MapType k v) = bindE (setPos k) (\<lambda>_. setPos v)"
| "setPos (FuncType ps rs) =
     bindE (setPos_FieldList ps)
       (\<lambda>_. case rs of None \<Rightarrow> Inr () | Some r \<Rightarrow> setPos_FieldList r)"
| "setPos (ArrayType len elt) = setPos elt"
| "setPos (StructType fs) = setPos_FieldList fs"
| "setPos (SelectorExpr x sel) = setPos x"
| "setPos (InterfaceType ms) = setPos_FieldList ms"
| "setPos (StarExpr x) = setPos x"
| "setPos (ChanType v) = setPos v"
| "setPos (ParenExpr x) = setPos x"
| "setPos (BasicLit v) = Inl (Panic ''unknown type: %v'')"
| "setPos (CompositeLit t es) = Inl (Panic ''unknown type: %v'')"
| "setPos (IndexExpr x i) = Inl (Panic ''unknown type: %v'')"
| "setPos (CallExpr f as) = Inl (Panic ''unknown type: %v'')"
| "setPos (UnaryExpr op x) = Inl (Panic ''unknown type: %v'')"
| "setPos (BinaryExpr x op y) = Inl (Panic ''unknown type: %v'')"
| "setPos_Field (Field names t) = setPos t"
| "setPos_FieldList (FieldList fs) = (case fs of [] \<Rightarrow> Inr () | f # _ \<Rightarrow> setPos_Field f)"

definition expr :: "golib \<Rightarrow> string \<Rightarrow> error + expr" where
  "expr L s =
     bindE (check (ParseExpr L s) ''parse expr: %q'' [s])
       (\<lambda>exp. bindE (setPos exp) (\<lambda>_. Inr exp))"

subsection \<open>\<^verbatim>\<open>astutil.Apply\<close> with a callback that replaces expressions\<close>

text \<open>
  \<^verbatim>\<open>replaceIface\<close> and \<^verbatim>\<open>renameMapType\<close> run \<^verbatim>\<open>astutil.Apply\<close> with a callback that looks
  at the node under the cursor and, on a match, calls \<^verbatim>\<open>c.Replace\<close>. Such a callback is a
  function \<open>cb\<close> from an expression to \<open>None\<close> (no match) or \<open>Some r\<close>, where \<open>r\<close> is the
  replacement, or the panic raised while building it.

  After the callback, \<^verbatim>\<open>Apply\<close> walks the children of the node it was called on. When the
  node was replaced these are the children of the old node, which is no longer part of
  the tree: the callback can match there again, but it builds the same replacement from
  the same text, so it neither changes the tree nor fails where it did not fail before.
  The replacement itself is not walked. Hence \<open>walk_expr\<close> stops at a replaced node.
  (The trees of the parser share no node. \<^verbatim>\<open>renameTuple\<close> and \<^verbatim>\<open>renameTupleList\<close> make
  two fields share nodes; what the walk does to those is modelled with them, below.)
\<close>

type_synonym callback = "expr \<Rightarrow> (error + expr) option"

fun walk_expr :: "callback \<Rightarrow> expr \<Rightarrow> error + expr"
  and walk_children :: "callback \<Rightarrow> expr \<Rightarrow> error + expr"
  and walk_Field :: "callback \<Rightarrow> field \<Rightarrow> error + field"
  and walk_FieldList :: "callback \<Rightarrow> field_list \<Rightarrow> error + field_list" where
  "walk_expr cb e = (case cb e of Some r \<Rightarrow> r | None \<Rightarrow> walk_children cb e)"
| "walk_children cb (Ident n) = Inr (Ident n)"
| "walk_children cb (BasicLit v) = Inr (BasicLit v)"
| "walk_children cb (CompositeLit t es) =
     bindE (optE (walk_expr cb) t)
       (\<lambda>t'. bindE (mapE (walk_expr cb) es) (\<lambda>es'. Inr (CompositeLit t' es')))"
| "walk_children cb (ParenExpr x) = bindE (walk_expr cb x) (\<lambda>x'. Inr (ParenExpr x'))"
| "walk_children cb (SelectorExpr x sel) =
     bindE (walk_expr cb x) (\<lambda>x'. Inr (SelectorExpr x' sel))"
| "walk_children cb (IndexExpr x i) =
     bindE (walk_expr cb x) (\<lambda>x'. bindE (walk_expr cb i) (\<lambda>i'. Inr (IndexExpr x' i')))"
| "walk_children cb (CallExpr f as) =
     bindE (walk_expr cb f)
       (\<lambda>f'. bindE (mapE (walk_expr cb) as) (\<lambda>as'. Inr (CallExpr f' as')))"
| "walk_children cb (StarExpr x) = bindE (walk_expr cb x) (\<lambda>x'. Inr (StarExpr x'))"
| "walk_children cb (UnaryExpr op x) =
     bindE (walk_expr cb x) (\<lambda>x'. Inr (UnaryExpr op x'))"
| "walk_children cb (BinaryExpr x op y) =
     bindE (walk_expr cb x) (\<lambda>x'. bindE (walk_expr cb y) (\<lambda>y'. Inr (BinaryExpr x' op y')))"
| "walk_children cb (ArrayType len elt) =
     bindE (optE (walk_expr cb) len)
       (\<lambda>len'. bindE (walk_expr cb elt) (\<lambda>elt'. Inr (ArrayType len' elt')))"
| "walk_children cb (StructType fs) =
     bindE (walk_FieldList cb fs) (\<lambda>fs'. Inr (StructType fs'))"
| "walk_children cb (FuncType ps rs) =
     bindE (walk_FieldList cb ps)
       (\<lambda>ps'. bindE (optE (walk_FieldList cb) rs) (\<lambda>rs'. Inr (FuncType ps' rs')))"
| "walk_children cb (InterfaceType ms) =
     bindE (walk_FieldList cb ms) (\<lambda>ms'. Inr (InterfaceType ms'))"
| "walk_children cb (MapType k v) =
     bindE (walk_expr cb k) (\<lambda>k'. bindE (walk_expr cb v) (\<lambda>v'. Inr (MapType k' v')))"
| "walk_children cb (ChanType v) = bindE (walk_expr cb v) (\<lambda>v'. Inr (ChanType v'))"
| "walk_Field cb (Field names t) = bindE (walk_expr cb t) (\<lambda>t'. Inr (Field names t'))"
| "walk_FieldList cb (FieldList fs) =
     bindE (mapE (walk_Field cb) fs) (\<lambda>fs'. Inr (FieldList fs'))"

fun walk_stmt :: "callback \<Rightarrow> stmt \<Rightarrow> error + stmt" where
  "walk_stmt cb (ExprStmt x) = bindE (walk_expr cb x) (\<lambda>x'. Inr (ExprStmt x'))"
| "walk_stmt cb (AssignStmt lhs tok rhs) =
     bindE (mapE (walk_expr cb) lhs)
       (\<lambda>lhs'. bindE (mapE (walk_expr cb) rhs) (\<lambda>rhs'. Inr (AssignStmt lhs' tok rhs')))"
| "walk_stmt cb (IncDecStmt x tok) = bindE (walk_expr cb x) (\<lambda>x'. Inr (IncDecStmt x' tok))"
| "walk_stmt cb (DeferStmt c) = bindE (walk_expr cb c) (\<lambda>c'. Inr (DeferStmt c'))"
| "walk_stmt cb (ReturnStmt rs) = bindE (mapE (walk_expr cb) rs) (\<lambda>rs'. Inr (ReturnStmt rs'))"
| "walk_stmt cb (BranchStmt tok label) = Inr (BranchStmt tok label)"
| "walk_stmt cb (BlockStmt ss) = bindE (mapE (walk_stmt cb) ss) (\<lambda>ss'. Inr (BlockStmt ss'))"
| "walk_stmt cb (IfStmt init cond body els) =
     bindE (optE (walk_stmt cb) init)
       (\<lambda>init'. bindE (walk_expr cb cond)
         (\<lambda>cond'. bindE (mapE (walk_stmt cb) body)
           (\<lambda>body'. bindE (optE (walk_stmt cb) els)
             (\<lambda>els'. Inr (IfStmt init' cond' body' els')))))"
| "walk_stmt cb (RangeStmt k v tok x body) =
     bindE (optE (walk_expr cb) k)
       (\<lambda>k'. bindE (optE (walk_expr cb) v)
         (\<lambda>v'. bindE (walk_expr cb x)
           (\<lambda>x'. bindE (mapE (walk_stmt cb) body)
             (\<lambda>body'. Inr (RangeStmt k' v' tok x' body')))))"

text \<open>
  \<^verbatim>\<open>astutil.Apply(n, cb, nil)\<close> for the kinds of node \<open>n\<close> the program passes. The callers
  drop the node \<^verbatim>\<open>Apply\<close> returns, so a replacement of the root itself is lost: the root
  expression stays, and only the panic of building the replacement is felt. A nil root is
  \<open>None\<close> and is left alone.
\<close>

definition Apply_Expr :: "callback \<Rightarrow> expr \<Rightarrow> error + expr" where
  "Apply_Expr cb e =
     (case cb e of Some r \<Rightarrow> bindE r (\<lambda>_. Inr e) | None \<Rightarrow> walk_children cb e)"

definition Apply_Field :: "callback \<Rightarrow> field \<Rightarrow> error + field" where
  "Apply_Field cb f = walk_Field cb f"

definition Apply_FieldList :: "callback \<Rightarrow> field_list \<Rightarrow> error + field_list" where
  "Apply_FieldList cb l = walk_FieldList cb l"

definition Apply_Results :: "callback \<Rightarrow> field_list option \<Rightarrow> error + field_list option" where
  "Apply_Results cb l = optE (walk_FieldList cb) l"

definition Apply_Body :: "callback \<Rightarrow> stmt list option \<Rightarrow> error + stmt list option" where
  "Apply_Body cb b = optE (\<lambda>ss. mapE (walk_stmt cb) ss) b"

definition Apply_FuncDecl :: "callback \<Rightarrow> FuncDecl \<Rightarrow> error + FuncDecl" where
  "Apply_FuncDecl cb f =
     bindE (optE (walk_FieldList cb) (Recv f))
       (\<lambda>recv. bindE (walk_FieldList cb (Params f))
         (\<lambda>ps. bindE (optE (walk_FieldList cb) (Results f))
           (\<lambda>rs. bindE (Apply_Body cb (Body f))
             (\<lambda>b. Inr (f\<lparr>Recv := recv, Params := ps, Results := rs, Body := b\<rparr>)))))"

subsection \<open>The generator\<close>

text \<open>
  \<^verbatim>\<open>Generator\<close>. Its three handler tables are kept in a record of their own, \<open>Registry\<close>,
  because a handler is a closure over the generator: it reads \<^verbatim>\<open>g.key\<close> and \<^verbatim>\<open>g.value\<close>
  when it is called. A table is an association list; \<^verbatim>\<open>delete(m, k)\<close> is \<open>AList.delete\<close>
  and \<^verbatim>\<open>len(m) == 0\<close> is \<open>m = []\<close>.
\<close>

record Generator =
  pkg :: string
  out :: string
  name :: string
  key :: string
  value' :: string
  file' :: "File option"

type_synonym 'n handler = "golib \<Rightarrow> Generator \<Rightarrow> 'n \<Rightarrow> error + 'n"

record Registry =
  funcs :: "(string \<times> FuncDecl handler) list"
  types :: "(string \<times> TypeSpec handler) list"
  values' :: "(string \<times> ValueSpec handler) list"

subsection \<open>Rewrite primitives\<close>

text \<open>
  \<^verbatim>\<open>replaceIface(n, s)\<close> is \<^verbatim>\<open>Apply\<close> over \<open>n\<close> with the callback \<open>replaceIface L s\<close>, and
  likewise for \<^verbatim>\<open>g.replaceKey\<close>, \<^verbatim>\<open>g.replaceValue\<close> and \<^verbatim>\<open>g.renameMapType\<close>.
\<close>

definition replaceIface :: "golib \<Rightarrow> string \<Rightarrow> callback" where
  "replaceIface L s e = (case e of InterfaceType ms \<Rightarrow> Some (expr L s) | _ \<Rightarrow> None)"

definition replaceKey :: "golib \<Rightarrow> Generator \<Rightarrow> callback" where
  "replaceKey L g = replaceIface L (key g)"

definition replaceValue :: "golib \<Rightarrow> Generator \<Rightarrow> callback" where
  "replaceValue L g = replaceIface L (value' g)"

definition isIFace :: "expr \<Rightarrow> bool" where
  "isIFace e = (case e of InterfaceType ms \<Rightarrow> True | _ \<Rightarrow> False)"

definition renameMapType :: "golib \<Rightarrow> Generator \<Rightarrow> callback" where
  "renameMapType L g e =
     (case e of
        MapType k v \<Rightarrow>
          if isIFace k \<and> isIFace v
          then Some (expr L (''map['' @ key g @ '']'' @ value' g))
          else None
      | _ \<Rightarrow> None)"

text \<open>
  \<^verbatim>\<open>renameTuple\<close> and \<^verbatim>\<open>renameTupleList\<close> append a field that shares nodes with the first
  one: \<^verbatim>\<open>renameTuple\<close> the whole type, \<^verbatim>\<open>renameTupleList\<close> the children of the array type
  (it copies the \<^verbatim>\<open>ast.ArrayType\<close> struct, not what it points to). A pass of \<^verbatim>\<open>Apply\<close>
  over one referrer replaces a matching node in that referrer's slot only, and rewrites the
  children of the node in place, for both. \<open>pass cb t\<close> gives what the slot walked holds
  after a pass over node \<open>t\<close>, and what the node itself has become. \<open>shared cb1 cb2 t\<close>
  gives what the two referrers of \<open>t\<close> hold after a pass with \<open>cb1\<close> through the first
  and then a pass with \<open>cb2\<close> through the second.
\<close>

definition pass :: "callback \<Rightarrow> expr \<Rightarrow> error + expr \<times> expr" where
  "pass cb t = bindE (walk_expr cb t) (\<lambda>slot. bindE (walk_children cb t) (\<lambda>node. Inr (slot, node)))"

definition shared :: "callback \<Rightarrow> callback \<Rightarrow> expr \<Rightarrow> error + expr \<times> expr" where
  "shared cb1 cb2 t =
     bindE (pass cb1 t)
       (\<lambda>(slot1, node1). bindE (pass cb2 node1)
         (\<lambda>(slot2, node2). Inr (if cb1 t = None then node2 else slot1, slot2)))"

fun renameTuple :: "golib \<Rightarrow> Generator \<Rightarrow> field_list \<Rightarrow> error + field_list" where
  "renameTuple L g (FieldList []) = Inl (Panic ''index out of range'')"
| "renameTuple L g (FieldList (Field names t # rest)) =
     (if key g = value' g
      then bindE (Apply_Field (replaceKey L g) (Field names t))
             (\<lambda>f0. Inr (FieldList (f0 # rest)))
      else case names of
             n0 # n1 # _ \<Rightarrow>
               (case rest of
                  [] \<Rightarrow>
                    bindE (shared (replaceKey L g) (replaceValue L g) t)
                      (\<lambda>(t0, t1). Inr (FieldList [Field [n0] t0, Field [n1] t1]))
                | f1 # fs \<Rightarrow>
                    bindE (pass (replaceKey L g) t)
                      (\<lambda>(t0, node). bindE (Apply_Field (replaceValue L g) f1)
                        (\<lambda>f1'. Inr (FieldList (Field [n0] t0 # f1' # fs @ [Field [n1] node])))))
           | _ \<Rightarrow> Inl (Panic ''index out of range''))"

fun renameTupleList :: "golib \<Rightarrow> Generator \<Rightarrow> field_list \<Rightarrow> error + field_list" where
  "renameTupleList L g (FieldList []) = Inl (Panic ''index out of range'')"
| "renameTupleList L g (FieldList (Field names t # rest)) =
     (if key g = value' g
      then bindE (Apply_Field (replaceKey L g) (Field names t))
             (\<lambda>f0. Inr (FieldList (f0 # rest)))
      else case t of
             ArrayType len elt \<Rightarrow>
               (case names of
                  n0 # n1 # _ \<Rightarrow>
                    (case rest of
                       [] \<Rightarrow>
                         bindE (optE (shared (replaceKey L g) (replaceValue L g)) len)
                           (\<lambda>len01. bindE (shared (replaceKey L g) (replaceValue L g) elt)
                             (\<lambda>(elt0, elt1). Inr (FieldList
                                [Field [n0] (ArrayType (map_option fst len01) elt0),
                                 Field [n1] (ArrayType (map_option snd len01) elt1)])))
                     | f1 # fs \<Rightarrow>
                         bindE (optE (pass (replaceKey L g)) len)
                           (\<lambda>len01. bindE (pass (replaceKey L g) elt)
                             (\<lambda>(elt0, node). bindE (Apply_Field (replaceValue L g) f1)
                               (\<lambda>f1'. Inr (FieldList
                                  (Field [n0] (ArrayType (map_option fst len01) elt0) # f1' # fs @
                                   [Field [n1] (ArrayType (map_option snd len01) node)]))))))
                | _ \<Rightarrow> Inl (Panic ''index out of range''))
           | _ \<Rightarrow> Inl (Panic ''interface conversion: ast.Expr is not *ast.ArrayType''))"

text \<open>
  \<^verbatim>\<open>renameMapKeysValues\<close>: the callback acts on assignment statements, where it runs
  \<^verbatim>\<open>replaceKey\<close> or \<^verbatim>\<open>replaceValue\<close> over the first argument of the call. \<^verbatim>\<open>Apply\<close> then
  walks the expressions of the assignment, which hold no statement.
\<close>

definition renameMapKeysValues_assign ::
  "golib \<Rightarrow> Generator \<Rightarrow> expr list \<Rightarrow> string \<Rightarrow> expr list \<Rightarrow> error + stmt" where
  "renameMapKeysValues_assign L g lhs tok rhs =
     (case rhs of
        [] \<Rightarrow> Inl (Panic ''index out of range'')
      | CallExpr (Ident funName) args # rhs' \<Rightarrow>
          if funName = ''make''
          then (case lhs of
                  [] \<Rightarrow> Inl (Panic ''index out of range'')
                | Ident lhsName # _ \<Rightarrow>
                    (case args of
                       [] \<Rightarrow> Inl (Panic ''index out of range'')
                     | a # as \<Rightarrow>
                         bindE (Apply_Expr
                                  (if lhsName = ''keys'' then replaceKey L g else replaceValue L g) a)
                           (\<lambda>a'. Inr (AssignStmt lhs tok (CallExpr (Ident funName) (a' # as) # rhs'))))
                | _ \<Rightarrow> Inr (AssignStmt lhs tok rhs))
          else Inr (AssignStmt lhs tok rhs)
      | _ \<Rightarrow> Inr (AssignStmt lhs tok rhs))"

fun renameMapKeysValues_stmt :: "golib \<Rightarrow> Generator \<Rightarrow> stmt \<Rightarrow> error + stmt" where
  "renameMapKeysValues_stmt L g (AssignStmt lhs tok rhs) = renameMapKeysValues_assign L g lhs tok rhs"
| "renameMapKeysValues_stmt L g (BlockStmt ss) =
     bindE (mapE (renameMapKeysValues_stmt L g) ss) (\<lambda>ss'. Inr (BlockStmt ss'))"
| "renameMapKeysValues_stmt L g (IfStmt init cond body els) =
     bindE (optE (renameMapKeysValues_stmt L g) init)
       (\<lambda>init'. bindE (mapE (renameMapKeysValues_stmt L g) body)
         (\<lambda>body'. bindE (optE (renameMapKeysValues_stmt L g) els)
           (\<lambda>els'. Inr (IfStmt init' cond body' els'))))"
| "renameMapKeysValues_stmt L g (RangeStmt k v tok x body) =
     bindE (mapE (renameMapKeysValues_stmt L g) body) (\<lambda>body'. Inr (RangeStmt k v tok x body'))"
| "renameMapKeysValues_stmt L g s = Inr s"

definition renameMapKeysValues ::
  "golib \<Rightarrow> Generator \<Rightarrow> stmt list option \<Rightarrow> error + stmt list option" where
  "renameMapKeysValues L g b = optE (\<lambda>ss. mapE (renameMapKeysValues_stmt L g) ss) b"

text \<open>
  \<^verbatim>\<open>renameNil\<close>: an identifier whose parent is a return statement is one of its results;
  \<^verbatim>\<open>new(types.Nil).String()\<close> is the text \<^verbatim>\<open>nil\<close>.
\<close>

definition renameNil_result :: "string \<Rightarrow> expr \<Rightarrow> expr" where
  "renameNil_result nm e = (case e of Ident i \<Rightarrow> if i = ''nil'' then Ident nm else e | _ \<Rightarrow> e)"

fun renameNil_stmt :: "string \<Rightarrow> stmt \<Rightarrow> stmt" where
  "renameNil_stmt nm (ReturnStmt rs) = ReturnStmt (map (renameNil_result nm) rs)"
| "renameNil_stmt nm (BlockStmt ss) = BlockStmt (map (renameNil_stmt nm) ss)"
| "renameNil_stmt nm (IfStmt init cond body els) =
     IfStmt (map_option (renameNil_stmt nm) init) cond (map (renameNil_stmt nm) body)
       (map_option (renameNil_stmt nm) els)"
| "renameNil_stmt nm (RangeStmt k v tok x body) =
     RangeStmt k v tok x (map (renameNil_stmt nm) body)"
| "renameNil_stmt nm s = s"

definition renameNil :: "stmt list option \<Rightarrow> string \<Rightarrow> stmt list option" where
  "renameNil b nm = map_option (map (renameNil_stmt nm)) b"

text \<open>
  \<^verbatim>\<open>rename\<close>: the callback renames an identifier whose name is a key of the table, and the
  name of a function declaration; \<^verbatim>\<open>Apply\<close> then reaches that name again as an identifier.
  Identifiers are expressions, field names, selectors, labels and the names of
  declarations, of import specs and of the package.

  The callback also writes the new name into the identifier's \<^verbatim>\<open>Obj\<close>, which the printer
  does not read. The model leaves \<^verbatim>\<open>Obj\<close> out, and with it the nil dereference at an
  identifier that matches the table and has no object. In the template the only key of
  the table that occurs is \<^verbatim>\<open>Map\<close>: in the type declaration, in the receivers and in the
  result of \<^verbatim>\<open>Init\<close>, which the parser resolves to the declared type.
\<close>

definition rename_Ident :: "(string \<times> string) list \<Rightarrow> string \<Rightarrow> string" where
  "rename_Ident oldnew n = (case map_of oldnew n of Some n' \<Rightarrow> n' | None \<Rightarrow> n)"

fun rename_expr :: "(string \<times> string) list \<Rightarrow> expr \<Rightarrow> expr"
  and rename_Field :: "(string \<times> string) list \<Rightarrow> field \<Rightarrow> field"
  and rename_FieldList :: "(string \<times> string) list \<Rightarrow> field_list \<Rightarrow> field_list" where
  "rename_expr t (Ident n) = Ident (rename_Ident t n)"
| "rename_expr t (BasicLit v) = BasicLit v"
| "rename_expr t (CompositeLit ty es) =
     CompositeLit (map_option (rename_expr t) ty) (map (rename_expr t) es)"
| "rename_expr t (ParenExpr x) = ParenExpr (rename_expr t x)"
| "rename_expr t (SelectorExpr x sel) = SelectorExpr (rename_expr t x) (rename_Ident t sel)"
| "rename_expr t (IndexExpr x i) = IndexExpr (rename_expr t x) (rename_expr t i)"
| "rename_expr t (CallExpr f as) = CallExpr (rename_expr t f) (map (rename_expr t) as)"
| "rename_expr t (StarExpr x) = StarExpr (rename_expr t x)"
| "rename_expr t (UnaryExpr op x) = UnaryExpr op (rename_expr t x)"
| "rename_expr t (BinaryExpr x op y) = BinaryExpr (rename_expr t x) op (rename_expr t y)"
| "rename_expr t (ArrayType len elt) =
     ArrayType (map_option (rename_expr t) len) (rename_expr t elt)"
| "rename_expr t (StructType fs) = StructType (rename_FieldList t fs)"
| "rename_expr t (FuncType ps rs) =
     FuncType (rename_FieldList t ps) (map_option (rename_FieldList t) rs)"
| "rename_expr t (InterfaceType ms) = InterfaceType (rename_FieldList t ms)"
| "rename_expr t (MapType k v) = MapType (rename_expr t k) (rename_expr t v)"
| "rename_expr t (ChanType v) = ChanType (rename_expr t v)"
| "rename_Field t (Field names ty) = Field (map (rename_Ident t) names) (rename_expr t ty)"
| "rename_FieldList t (FieldList fs) = FieldList (map (rename_Field t) fs)"

fun rename_stmt :: "(string \<times> string) list \<Rightarrow> stmt \<Rightarrow> stmt" where
  "rename_stmt t (ExprStmt x) = ExprStmt (rename_expr t x)"
| "rename_stmt t (AssignStmt lhs tok rhs) =
     AssignStmt (map (rename_expr t) lhs) tok (map (rename_expr t) rhs)"
| "rename_stmt t (IncDecStmt x tok) = IncDecStmt (rename_expr t x) tok"
| "rename_stmt t (DeferStmt c) = DeferStmt (rename_expr t c)"
| "rename_stmt t (ReturnStmt rs) = ReturnStmt (map (rename_expr t) rs)"
| "rename_stmt t (BranchStmt tok label) = BranchStmt tok (map_option (rename_Ident t) label)"
| "rename_stmt t (BlockStmt ss) = BlockStmt (map (rename_stmt t) ss)"
| "rename_stmt t (IfStmt init cond body els) =
     IfStmt (map_option (rename_stmt t) init) (rename_expr t cond) (map (rename_stmt t) body)
       (map_option (rename_stmt t) els)"
| "rename_stmt t (RangeStmt k v tok x body) =
     RangeStmt (map_option (rename_expr t) k) (map_option (rename_expr t) v) tok
       (rename_expr t x) (map (rename_stmt t) body)"

definition rename_FuncDecl :: "(string \<times> string) list \<Rightarrow> FuncDecl \<Rightarrow> FuncDecl" where
  "rename_FuncDecl t f =
     \<lparr>Recv = map_option (rename_FieldList t) (Recv f),
      Name = rename_Ident t (rename_Ident t (Name f)),
      Params = rename_FieldList t (Params f),
      Results = map_option (rename_FieldList t) (Results f),
      Body = map_option (map (rename_stmt t)) (Body f)\<rparr>"

fun rename_spec :: "(string \<times> string) list \<Rightarrow> spec \<Rightarrow> spec" where
  "rename_spec t (ImportSpec n path) = ImportSpec (map_option (rename_Ident t) n) path"
| "rename_spec t (TypeSpec (n, ty)) = TypeSpec (rename_Ident t n, rename_expr t ty)"
| "rename_spec t (ValueSpec (names, ty, vs)) =
     ValueSpec (map (rename_Ident t) names, map_option (rename_expr t) ty,
       map (rename_expr t) vs)"

fun rename_decl :: "(string \<times> string) list \<Rightarrow> decl \<Rightarrow> decl" where
  "rename_decl t (FuncD f) = FuncD (rename_FuncDecl t f)"
| "rename_decl t (GenDecl tok specs) = GenDecl tok (map (rename_spec t) specs)"
| "rename_decl t BadDecl = BadDecl"

definition rename :: "File \<Rightarrow> (string \<times> string) list \<Rightarrow> File" where
  "rename f oldnew =
     \<lparr>PkgName = rename_Ident oldnew (PkgName f), Decls = map (rename_decl oldnew) (Decls f)\<rparr>"

text \<open>The table \<^verbatim>\<open>Mutate\<close> passes to \<^verbatim>\<open>rename\<close>.\<close>

definition renameTable :: "golib \<Rightarrow> Generator \<Rightarrow> (string \<times> string) list" where
  "renameTable L g =
     [(''Map'', name g),
      (''entry'', ''entry'' @ Title L (name g)),
      (''readOnly'', ''readOnly'' @ Title L (name g)),
      (''expunged'', ''expunged'' @ Title L (name g)),
      (''newEntry'', ''newEntry'' @ Title L (name g))]"

subsection \<open>The handlers\<close>

text \<open>\<^verbatim>\<open>f.Type.Results.List[0].Names[0].Name\<close>, with the panics of each step.\<close>

definition firstResultName :: "field_list option \<Rightarrow> error + string" where
  "firstResultName rs =
     (case rs of
        None \<Rightarrow> Inl (Panic ''nil pointer dereference'')
      | Some (FieldList []) \<Rightarrow> Inl (Panic ''index out of range'')
      | Some (FieldList (Field [] t # _)) \<Rightarrow> Inl (Panic ''index out of range'')
      | Some (FieldList (Field (n # _) t # _)) \<Rightarrow> Inr n)"

definition Values :: "(string \<times> ValueSpec handler) list" where
  "Values = []"

definition Types :: "(string \<times> TypeSpec handler) list" where
  "Types =
     [(''Map'', \<lambda>L g (n, t).
        case t of
          StructType (FieldList (l # ls)) \<Rightarrow>
            bindE (Apply_Field (renameMapType L g) l)
              (\<lambda>l'. Inr (n, StructType (FieldList (l' # ls))))
        | StructType (FieldList []) \<Rightarrow> Inl (Panic ''index out of range'')
        | _ \<Rightarrow> Inl (Panic ''interface conversion: ast.Expr is not *ast.StructType''))]"

definition loadHandler :: "FuncDecl handler" where
  "loadHandler L g f =
     bindE (Apply_FieldList (replaceKey L g) (Params f))
       (\<lambda>ps. bindE (Apply_Results (replaceValue L g) (Results f))
         (\<lambda>rs. bindE (firstResultName rs)
           (\<lambda>nm. Inr (f\<lparr>Params := ps, Results := rs, Body := renameNil (Body f) nm\<rparr>))))"

definition Funcs :: "(string \<times> FuncDecl handler) list" where
  "Funcs =
     [(''Init'', \<lambda>L g f.
        bindE (Apply_Body (renameMapType L g) (Body f)) (\<lambda>b. Inr (f\<lparr>Body := b\<rparr>))),
      (''checkData'', \<lambda>L g f.
        bindE (Apply_Body (renameMapType L g) (Body f)) (\<lambda>b. Inr (f\<lparr>Body := b\<rparr>))),
      (''Change'', \<lambda>L g f.
        bindE (Apply_FieldList (renameMapType L g) (Params f)) (\<lambda>ps. Inr (f\<lparr>Params := ps\<rparr>))),
      (''Load'', loadHandler),
      (''Store'', \<lambda>L g f.
        bindE (renameTuple L g (Params f)) (\<lambda>ps. Inr (f\<lparr>Params := ps\<rparr>))),
      (''AddStore'', \<lambda>L g f.
        bindE (renameTuple L g (Params f))
          (\<lambda>ps. bindE (Apply_Results (replaceValue L g) (Results f))
            (\<lambda>rs. Inr (f\<lparr>Params := ps, Results := rs\<rparr>)))),
      (''AddStores'', \<lambda>L g f.
        bindE (renameTupleList L g (Params f)) (\<lambda>ps. Inr (f\<lparr>Params := ps\<rparr>))),
      (''Stores'', \<lambda>L g f.
        bindE (renameTupleList L g (Params f)) (\<lambda>ps. Inr (f\<lparr>Params := ps\<rparr>))),
      (''LoadOrStore'', \<lambda>L g f.
        bindE (renameTuple L g (Params f))
          (\<lambda>ps. bindE (Apply_Results (replaceValue L g) (Results f))
            (\<lambda>rs. Inr (f\<lparr>Params := ps, Results := rs\<rparr>)))),
      (''LoadAndDelete'', loadHandler),
      (''Range'', \<lambda>L g f.
        case Params f of
          FieldList [] \<Rightarrow> Inl (Panic ''index out of range'')
        | FieldList (Field names (FuncType ps rs) # rest) \<Rightarrow>
            bindE (renameTuple L g ps)
              (\<lambda>ps'. Inr (f\<lparr>Params := FieldList (Field names (FuncType ps' rs) # rest)\<rparr>))
        | _ \<Rightarrow> Inl (Panic ''interface conversion: ast.Expr is not *ast.FuncType'')),
      (''Items'', \<lambda>L g f.
        case Results f of
          None \<Rightarrow> Inl (Panic ''nil pointer dereference'')
        | Some l \<Rightarrow>
            bindE (renameTupleList L g l)
              (\<lambda>l'. bindE (renameMapKeysValues L g (Body f))
                (\<lambda>b. Inr (f\<lparr>Results := Some l', Body := b\<rparr>)))),
      (''ItemMap'', \<lambda>L g f.
        bindE (Apply_Results (renameMapType L g) (Results f))
          (\<lambda>rs. bindE (Apply_Body (renameMapType L g) (Body f))
            (\<lambda>b. Inr (f\<lparr>Results := rs, Body := b\<rparr>)))),
      (''StoreMap'', \<lambda>L g f.
        bindE (Apply_FieldList (renameMapType L g) (Params f))
          (\<lambda>ps. bindE (Apply_Body (renameMapType L g) (Body f))
            (\<lambda>b. Inr (f\<lparr>Params := ps, Body := b\<rparr>)))),
      (''Delete'', \<lambda>L g f. Apply_FuncDecl (replaceKey L g) f),
      (''DeleteAll'', \<lambda>L g f.
        bindE (renameMapKeysValues L g (Body f)) (\<lambda>b. Inr (f\<lparr>Body := b\<rparr>))),
      (''FromDB'', \<lambda>L g f. Inr f),
      (''ToDB'', \<lambda>L g f. Inr f),
      (''MarshalJSON'', \<lambda>L g f. Inr f),
      (''UnmarshalJSON'', \<lambda>L g f.
        bindE (Apply_Body (renameMapType L g) (Body f)) (\<lambda>b. Inr (f\<lparr>Body := b\<rparr>))),
      (''String'', \<lambda>L g f. Inr f)]"

subsection \<open>\<^verbatim>\<open>NewGenerator\<close>\<close>

text \<open>
  The flags \<^verbatim>\<open>-pkg\<close>, \<^verbatim>\<open>-o\<close> and \<^verbatim>\<open>-name\<close> and the last command-line argument are
  arguments of the model.
\<close>

definition NewGenerator ::
  "golib \<Rightarrow> string \<Rightarrow> string \<Rightarrow> string \<Rightarrow> string \<Rightarrow> error + Generator \<times> Registry" where
  "NewGenerator L pkgFlag outFlag nameFlag arg =
     (let g = \<lparr>pkg = pkgFlag, out = outFlag, name = nameFlag, key = [], value' = [],
                file' = None\<rparr>;
          r = \<lparr>funcs = Funcs, types = Types, values' = Values\<rparr>
      in bindE (check (ParseExpr L arg) ''parse expr: %s'' [arg])
           (\<lambda>exp. case exp of
              MapType k v \<Rightarrow>
                bindE (check (FormatNode L k) ''format map key'' [])
                  (\<lambda>ks. bindE (check (FormatNode L v) ''format map value'' [])
                    (\<lambda>vs. Inr (g\<lparr>key := ks, value' := vs,
                                  out := (if out g = [] then ''001_'' @ ToLower L (name g) @ ''.go''
                                          else out g)\<rparr>, r)))
            | _ \<Rightarrow> Inl (GenError ''invalid argument. expected map[T1]T2'' [])))"

subsection \<open>\<^verbatim>\<open>Mutate\<close>\<close>

text \<open>
  \<^verbatim>\<open>astutil.AddImport(fset, f, "sync")\<close> leaves a file that imports the path as it is.
  Otherwise it adds an import spec: the model adds it to the first import declaration, or
  in a new import declaration in front (astutil chooses among several import
  declarations and merges them). Either way only import declarations change.
\<close>

definition isImport :: "string \<Rightarrow> spec \<Rightarrow> bool" where
  "isImport path s = (case s of ImportSpec n p \<Rightarrow> n = None \<and> p = path | _ \<Rightarrow> False)"

definition imports' :: "File \<Rightarrow> string \<Rightarrow> bool" where
  "imports' f path =
     list_ex (\<lambda>d. case d of GenDecl tok specs \<Rightarrow> tok = ''import'' \<and> list_ex (isImport path) specs
                   | _ \<Rightarrow> False) (Decls f)"

fun addSpec :: "spec \<Rightarrow> decl list \<Rightarrow> decl list option" where
  "addSpec s [] = None"
| "addSpec s (GenDecl tok specs # ds) =
     (if tok = ''import'' then Some (GenDecl tok (specs @ [s]) # ds)
      else map_option ((#) (GenDecl tok specs)) (addSpec s ds))"
| "addSpec s (d # ds) = map_option ((#) d) (addSpec s ds)"

definition AddImport :: "File \<Rightarrow> string \<Rightarrow> File" where
  "AddImport f path =
     (if imports' f path then f
      else case addSpec (ImportSpec None path) (Decls f) of
             Some ds \<Rightarrow> f\<lparr>Decls := ds\<rparr>
           | None \<Rightarrow> f\<lparr>Decls := GenDecl ''import'' [ImportSpec None path] # Decls f\<rparr>)"

text \<open>
  One round of the loop over \<^verbatim>\<open>f.Decls\<close>: the registry after it, and the declaration as
  the handler left it.
\<close>

definition mutateDecl :: "golib \<Rightarrow> Generator \<Rightarrow> Registry \<Rightarrow> decl \<Rightarrow> error + Registry \<times> decl" where
  "mutateDecl L g r d =
     (case d of
        FuncD fd \<Rightarrow>
          (case map_of (funcs r) (Name fd) of
             None \<Rightarrow> Inl (GenError ''unrecognized function: %s'' [Name fd])
           | Some handler \<Rightarrow>
               bindE (handler L g fd)
                 (\<lambda>fd'. Inr (r\<lparr>funcs := AList.delete (Name fd') (funcs r)\<rparr>, FuncD fd')))
      | GenDecl tok specs \<Rightarrow>
          (case specs of
             [] \<Rightarrow> Inl (Panic ''index out of range'')
           | TypeSpec (n, t) # rest \<Rightarrow>
               (case map_of (types r) n of
                  None \<Rightarrow> Inl (GenError ''unrecognized type: %s'' [n])
                | Some handler \<Rightarrow>
                    bindE (handler L g (n, t))
                      (\<lambda>(n', t'). Inr (r\<lparr>types := AList.delete n' (types r)\<rparr>,
                                       GenDecl tok (TypeSpec (n', t') # rest))))
           | ValueSpec (names, t, vs) # rest \<Rightarrow>
               (case names of
                  [] \<Rightarrow> Inl (Panic ''index out of range'')
                | n # _ \<Rightarrow>
                    (case map_of (values' r) n of
                       None \<Rightarrow> Inl (GenError ''unrecognized value: %s'' [n])
                     | Some handler \<Rightarrow>
                         bindE (handler L g (names, t, vs))
                           (\<lambda>(names', t', vs').
                              bindE (expect (length names' = 1) ''mismatch values length: %d'' [])
                                (\<lambda>_. Inr (r\<lparr>values' := AList.delete (hd names') (values' r)\<rparr>,
                                           GenDecl tok (ValueSpec (names', t', vs') # rest))))))
           | ImportSpec n path # rest \<Rightarrow> Inr (r, GenDecl tok specs))
      | BadDecl \<Rightarrow> Inl (GenError ''unrecognized type: %s'' []))"

fun mutateDecls ::
  "golib \<Rightarrow> Generator \<Rightarrow> Registry \<Rightarrow> decl list \<Rightarrow> error + Registry \<times> decl list" where
  "mutateDecls L g r [] = Inr (r, [])"
| "mutateDecls L g r (d # ds) =
     bindE (mutateDecl L g r d)
       (\<lambda>(r', d'). bindE (mutateDecls L g r' ds) (\<lambda>(r'', ds'). Inr (r'', d' # ds')))"

text \<open>
  \<open>mutate L g r f\<close> is \<^verbatim>\<open>Mutate\<close> from the point where \<^verbatim>\<open>parser.ParseFile\<close> has returned
  the tree \<open>f\<close> (its error is not looked at).
\<close>

definition mutate :: "golib \<Rightarrow> Generator \<Rightarrow> Registry \<Rightarrow> File \<Rightarrow> error + Generator \<times> Registry" where
  "mutate L g r f0 =
     (let f = AddImport (f0\<lparr>PkgName := pkg g\<rparr>) ''sync''
      in bindE (mutateDecls L g r (Decls f))
           (\<lambda>(r', ds). bindE (expect (funcs r' = []) ''function was deleted'' [])
             (\<lambda>_. bindE (expect (types r' = []) ''type was deleted'' [])
               (\<lambda>_. bindE (expect (values' r' = []) ''value was deleted'' [])
                 (\<lambda>_. Inr (g\<lparr>file' := Some (rename (f\<lparr>Decls := ds\<rparr>) (renameTable L g))\<rparr>,
                            r'))))))"

subsection \<open>The template\<close>

text \<open>
  The syntax trees of the three texts \<^verbatim>\<open>templateCode\<close>, \<^verbatim>\<open>templateCodeExTrue\<close> and
  \<^verbatim>\<open>templateCodeExFalse\<close>, declaration by declaration, as \<^verbatim>\<open>parser.ParseFile\<close> builds
  them. The abbreviations stand for pieces of syntax that recur: the type
  \<^verbatim>\<open>interface{}\<close>, the type \<^verbatim>\<open>map[interface{}]interface{}\<close>, the receiver \<^verbatim>\<open>(m *Map)\<close>,
  the expression \<^verbatim>\<open>m.data\<close>, and the calls \<^verbatim>\<open>m.mu.F()\<close> and \<^verbatim>\<open>m.F(args)\<close>.
\<close>

abbreviation placeholder :: expr where
  "placeholder \<equiv> InterfaceType (FieldList [])"

abbreviation placeholderMap :: expr where
  "placeholderMap \<equiv> MapType placeholder placeholder"

abbreviation recvMap :: "field_list option" where
  "recvMap \<equiv> Some (FieldList [Field [''m''] (StarExpr (Ident ''Map''))])"

abbreviation m_data :: expr where
  "m_data \<equiv> SelectorExpr (Ident ''m'') ''data''"

abbreviation mu_call :: "string \<Rightarrow> expr" where
  "mu_call F \<equiv> CallExpr (SelectorExpr (SelectorExpr (Ident ''m'') ''mu'') F) []"

abbreviation m_call :: "string \<Rightarrow> expr list \<Rightarrow> expr" where
  "m_call F args \<equiv> CallExpr (SelectorExpr (Ident ''m'') F) args"

definition fn_checkData :: FuncDecl where
  "fn_checkData =
     \<lparr>Recv = recvMap, Name = ''checkData'', Params = FieldList [], Results = None,
      Body = Some
        [IfStmt None (BinaryExpr m_data ''=='' (Ident ''nil''))
           [AssignStmt [m_data] ''='' [CompositeLit (Some placeholderMap) []]] None]\<rparr>"

definition fn_Init :: FuncDecl where
  "fn_Init =
     \<lparr>Recv = recvMap, Name = ''Init'', Params = FieldList [],
      Results = Some (FieldList [Field [] (StarExpr (Ident ''Map''))]),
      Body = Some
        [ExprStmt (mu_call ''Lock''),
         AssignStmt [m_data] ''='' [CompositeLit (Some placeholderMap) []],
         ExprStmt (mu_call ''Unlock''),
         ReturnStmt [Ident ''m'']]\<rparr>"

definition fn_Change :: FuncDecl where
  "fn_Change =
     \<lparr>Recv = recvMap, Name = ''Change'',
      Params = FieldList [Field [''newMap''] placeholderMap], Results = None,
      Body = Some
        [ExprStmt (mu_call ''Lock''),
         AssignStmt [m_data] ''='' [Ident ''newMap''],
         ExprStmt (mu_call ''Unlock'')]\<rparr>"

definition fn_Load :: FuncDecl where
  "fn_Load =
     \<lparr>Recv = recvMap, Name = ''Load'',
      Params = FieldList [Field [''key''] placeholder],
      Results = Some (FieldList [Field [''value''] placeholder, Field [''ok''] (Ident ''bool'')]),
      Body = Some
        [ExprStmt (mu_call ''RLock''),
         DeferStmt (mu_call ''RUnlock''),
         AssignStmt [Ident ''value'', Ident ''ok''] ''='' [IndexExpr m_data (Ident ''key'')],
         ReturnStmt []]\<rparr>"

definition fn_Store :: FuncDecl where
  "fn_Store =
     \<lparr>Recv = recvMap, Name = ''Store'',
      Params = FieldList [Field [''key'', ''value''] placeholder], Results = None,
      Body = Some
        [ExprStmt (mu_call ''Lock''),
         DeferStmt (mu_call ''Unlock''),
         ExprStmt (m_call ''checkData'' []),
         AssignStmt [IndexExpr m_data (Ident ''key'')] ''='' [Ident ''value''],
         ReturnStmt []]\<rparr>"

definition fn_Stores :: FuncDecl where
  "fn_Stores =
     \<lparr>Recv = recvMap, Name = ''Stores'',
      Params = FieldList [Field [''keys'', ''values''] (ArrayType None placeholder)],
      Results = None,
      Body = Some
        [ExprStmt (mu_call ''Lock''),
         DeferStmt (mu_call ''Unlock''),
         ExprStmt (m_call ''checkData'' []),
         RangeStmt (Some (Ident ''idx'')) (Some (Ident ''key'')) '':='' (Ident ''keys'')
           [AssignStmt [IndexExpr m_data (Ident ''key'')] ''=''
              [IndexExpr (Ident ''values'') (Ident ''idx'')]],
         ReturnStmt []]\<rparr>"

definition fn_StoreMap :: FuncDecl where
  "fn_StoreMap =
     \<lparr>Recv = recvMap, Name = ''StoreMap'',
      Params = FieldList [Field [''tmp''] placeholderMap], Results = None,
      Body = Some
        [ExprStmt (mu_call ''Lock''),
         DeferStmt (mu_call ''Unlock''),
         ExprStmt (m_call ''checkData'' []),
         RangeStmt (Some (Ident ''key'')) (Some (Ident ''value'')) '':='' (Ident ''tmp'')
           [AssignStmt [IndexExpr m_data (Ident ''key'')] ''='' [Ident ''value'']],
         ReturnStmt []]\<rparr>"

definition fn_LoadOrStore :: FuncDecl where
  "fn_LoadOrStore =
     \<lparr>Recv = recvMap, Name = ''LoadOrStore'',
      Params = FieldList [Field [''key'', ''value''] placeholder],
      Results = Some (FieldList [Field [''actual''] placeholder, Field [''loaded''] (Ident ''bool'')]),
      Body = Some
        [ExprStmt (mu_call ''RLock''),
         IfStmt None (BinaryExpr m_data ''=='' (Ident ''nil''))
           [ExprStmt (mu_call ''RUnlock''),
            ExprStmt (mu_call ''Lock''),
            ExprStmt (m_call ''checkData'' []),
            ExprStmt (mu_call ''Unlock''),
            ExprStmt (mu_call ''RLock'')] None,
         AssignStmt [Ident ''actual'', Ident ''loaded''] ''='' [IndexExpr m_data (Ident ''key'')],
         ExprStmt (mu_call ''RUnlock''),
         IfStmt None (UnaryExpr ''!'' (Ident ''loaded''))
           [ExprStmt (mu_call ''Lock''),
            IfStmt
              (Some (AssignStmt [Ident ''actual'', Ident ''loaded''] ''=''
                       [IndexExpr m_data (Ident ''key'')]))
              (UnaryExpr ''!'' (Ident ''loaded''))
              [AssignStmt [IndexExpr m_data (Ident ''key'')] ''='' [Ident ''value''],
               AssignStmt [Ident ''actual''] ''='' [Ident ''value'']] None,
            ExprStmt (mu_call ''Unlock'')] None,
         ReturnStmt []]\<rparr>"

definition fn_LoadAndDelete :: FuncDecl where
  "fn_LoadAndDelete =
     \<lparr>Recv = recvMap, Name = ''LoadAndDelete'',
      Params = FieldList [Field [''key''] placeholder],
      Results = Some (FieldList [Field [''value''] placeholder, Field [''loaded''] (Ident ''bool'')]),
      Body = Some
        [ExprStmt (mu_call ''Lock''),
         DeferStmt (mu_call ''Unlock''),
         ExprStmt (m_call ''checkData'' []),
         AssignStmt [Ident ''value'', Ident ''loaded''] ''='' [IndexExpr m_data (Ident ''key'')],
         IfStmt None (Ident ''loaded'')
           [ExprStmt (CallExpr (Ident ''delete'') [m_data, Ident ''key''])] None,
         ReturnStmt []]\<rparr>"

definition fn_Delete :: FuncDecl where
  "fn_Delete =
     \<lparr>Recv = recvMap, Name = ''Delete'',
      Params = FieldList [Field [''key''] placeholder], Results = None,
      Body = Some [ExprStmt (m_call ''LoadAndDelete'' [Ident ''key''])]\<rparr>"

definition fn_DeleteAll :: FuncDecl where
  "fn_DeleteAll =
     \<lparr>Recv = recvMap, Name = ''DeleteAll'', Params = FieldList [], Results = None,
      Body = Some
        [ExprStmt (mu_call ''Lock''),
         DeferStmt (mu_call ''Unlock''),
         ExprStmt (m_call ''checkData'' []),
         AssignStmt [Ident ''length''] '':='' [CallExpr (Ident ''len'') [m_data]],
         AssignStmt [Ident ''keys''] '':=''
           [CallExpr (Ident ''make'') [ArrayType None placeholder, Ident ''length'']],
         AssignStmt [Ident ''idx''] '':='' [BasicLit ''0''],
         RangeStmt (Some (Ident ''key'')) (Some (Ident ''_'')) '':='' m_data
           [AssignStmt [IndexExpr (Ident ''keys'') (Ident ''idx'')] ''='' [Ident ''key''],
            IncDecStmt (Ident ''idx'') ''++''],
         RangeStmt (Some (Ident ''_'')) (Some (Ident ''key'')) '':='' (Ident ''keys'')
           [ExprStmt (CallExpr (Ident ''delete'') [m_data, Ident ''key''])]]\<rparr>"

definition fn_Range :: FuncDecl where
  "fn_Range =
     \<lparr>Recv = recvMap, Name = ''Range'',
      Params = FieldList
        [Field [''f'']
           (FuncType (FieldList [Field [''key'', ''value''] placeholder])
              (Some (FieldList [Field [] (Ident ''bool'')])))],
      Results = None,
      Body = Some
        [ExprStmt (mu_call ''RLock''),
         DeferStmt (mu_call ''RUnlock''),
         RangeStmt (Some (Ident ''key'')) (Some (Ident ''value'')) '':='' m_data
           [IfStmt None
              (UnaryExpr ''!'' (CallExpr (Ident ''f'') [Ident ''key'', Ident ''value'']))
              [BranchStmt ''break'' None] None],
         ReturnStmt []]\<rparr>"

definition fn_Items :: FuncDecl where
  "fn_Items =
     \<lparr>Recv = recvMap, Name = ''Items'', Params = FieldList [],
      Results = Some (FieldList [Field [''keys'', ''values''] (ArrayType None placeholder)]),
      Body = Some
        [ExprStmt (mu_call ''RLock''),
         DeferStmt (mu_call ''RUnlock''),
         AssignStmt [Ident ''length''] '':='' [CallExpr (Ident ''len'') [m_data]],
         AssignStmt [Ident ''keys''] ''=''
           [CallExpr (Ident ''make'') [ArrayType None placeholder, Ident ''length'']],
         AssignStmt [Ident ''values''] ''=''
           [CallExpr (Ident ''make'') [ArrayType None placeholder, Ident ''length'']],
         AssignStmt [Ident ''idx''] '':='' [BasicLit ''0''],
         RangeStmt (Some (Ident ''key'')) (Some (Ident ''value'')) '':='' m_data
           [AssignStmt [IndexExpr (Ident ''keys'') (Ident ''idx'')] ''='' [Ident ''key''],
            AssignStmt [IndexExpr (Ident ''values'') (Ident ''idx'')] ''='' [Ident ''value''],
            IncDecStmt (Ident ''idx'') ''++''],
         ReturnStmt []]\<rparr>"

definition fn_ItemMap :: FuncDecl where
  "fn_ItemMap =
     \<lparr>Recv = recvMap, Name = ''ItemMap'', Params = FieldList [],
      Results = Some (FieldList [Field [''tmp''] placeholderMap]),
      Body = Some
        [ExprStmt (mu_call ''RLock''),
         DeferStmt (mu_call ''RUnlock''),
         AssignStmt [Ident ''length''] '':='' [CallExpr (Ident ''len'') [m_data]],
         AssignStmt [Ident ''tmp''] ''=''
           [CallExpr (Ident ''make'') [placeholderMap, Ident ''length'']],
         RangeStmt (Some (Ident ''key'')) (Some (Ident ''value'')) '':='' m_data
           [AssignStmt [IndexExpr (Ident ''tmp'') (Ident ''key'')] ''='' [Ident ''value'']],
         ReturnStmt []]\<rparr>"

definition fn_FromDB :: FuncDecl where
  "fn_FromDB =
     \<lparr>Recv = recvMap, Name = ''FromDB'',
      Params = FieldList [Field [''data''] (ArrayType None (Ident ''byte''))],
      Results = Some (FieldList [Field [''err''] (Ident ''error'')]),
      Body = Some
        [IfStmt None (BinaryExpr (CallExpr (Ident ''len'') [Ident ''data'']) ''=='' (BasicLit ''0''))
           [ExprStmt (m_call ''Init'' []), ReturnStmt [Ident ''nil'']] None,
         AssignStmt [Ident ''err''] ''='' [m_call ''UnmarshalJSON'' [Ident ''data'']],
         ReturnStmt []]\<rparr>"

definition fn_ToDB :: FuncDecl where
  "fn_ToDB =
     \<lparr>Recv = recvMap, Name = ''ToDB'', Params = FieldList [],
      Results = Some (FieldList
        [Field [''data''] (ArrayType None (Ident ''byte'')), Field [''err''] (Ident ''error'')]),
      Body = Some
        [AssignStmt [Ident ''data'', Ident ''err''] ''='' [m_call ''MarshalJSON'' []],
         ReturnStmt []]\<rparr>"

definition fn_MarshalJSON :: FuncDecl where
  "fn_MarshalJSON =
     \<lparr>Recv = recvMap, Name = ''MarshalJSON'', Params = FieldList [],
      Results = Some (FieldList
        [Field [] (ArrayType None (Ident ''byte'')), Field [] (Ident ''error'')]),
      Body = Some
        [IfStmt None (BinaryExpr (Ident ''m'') ''=='' (Ident ''nil''))
           [ReturnStmt
              [CallExpr (ArrayType None (Ident ''byte'')) [BasicLit ''\"null\"''], Ident ''nil'']]
           None,
         ExprStmt (mu_call ''RLock''),
         DeferStmt (mu_call ''RUnlock''),
         AssignStmt [Ident ''ret'', Ident ''err''] '':=''
           [CallExpr
              (SelectorExpr
                 (SelectorExpr (Ident ''jsoniter'') ''ConfigCompatibleWithStandardLibrary'')
                 ''Marshal'')
              [m_data]],
         IfStmt None (BinaryExpr (Ident ''err'') ''!='' (Ident ''nil''))
           [ReturnStmt [Ident ''nil'', Ident ''err'']] None,
         ReturnStmt [Ident ''ret'', Ident ''nil'']]\<rparr>"

definition fn_UnmarshalJSON :: FuncDecl where
  "fn_UnmarshalJSON =
     \<lparr>Recv = recvMap, Name = ''UnmarshalJSON'',
      Params = FieldList [Field [''b''] (ArrayType None (Ident ''byte''))],
      Results = Some (FieldList [Field [] (Ident ''error'')]),
      Body = Some
        [IfStmt None (BinaryExpr (Ident ''m'') ''=='' (Ident ''nil''))
           [ReturnStmt
              [CallExpr (SelectorExpr (Ident ''errors'') ''New'')
                 [BasicLit ''\" Unmarshal(non-pointer MapInt32Int8)\"'']]]
           None,
         AssignStmt [Ident ''tmp''] '':='' [CompositeLit (Some placeholderMap) []],
         AssignStmt [Ident ''err''] '':=''
           [CallExpr
              (SelectorExpr
                 (SelectorExpr (Ident ''jsoniter'') ''ConfigCompatibleWithStandardLibrary'')
                 ''Unmarshal'')
              [Ident ''b'', UnaryExpr ''&'' (Ident ''tmp'')]],
         IfStmt None (BinaryExpr (Ident ''err'') ''!='' (Ident ''nil''))
           [ReturnStmt [Ident ''err'']] None,
         IfStmt None (BinaryExpr (Ident ''tmp'') ''=='' (Ident ''nil''))
           [AssignStmt [Ident ''tmp''] ''='' [CompositeLit (Some placeholderMap) []]] None,
         ExprStmt (m_call ''Change'' [Ident ''tmp'']),
         ReturnStmt [Ident ''nil'']]\<rparr>"

definition fn_String :: FuncDecl where
  "fn_String =
     \<lparr>Recv = recvMap, Name = ''String'', Params = FieldList [],
      Results = Some (FieldList [Field [] (Ident ''string'')]),
      Body = Some
        [IfStmt None (BinaryExpr (Ident ''m'') ''=='' (Ident ''nil''))
           [ReturnStmt [BasicLit ''\"{}\"'']] None,
         AssignStmt [Ident ''data'', Ident ''err''] '':='' [m_call ''MarshalJSON'' []],
         IfStmt None (BinaryExpr (Ident ''err'') ''!='' (Ident ''nil''))
           [ReturnStmt [BasicLit ''\"{}\"'']] None,
         ReturnStmt [CallExpr (Ident ''string'') [Ident ''data'']]]\<rparr>"

definition templateCode :: "decl list" where
  "templateCode =
     [GenDecl ''import''
        [ImportSpec None ''errors'', ImportSpec None ''github.com/json-iterator/go'',
         ImportSpec None ''sync''],
      GenDecl ''type''
        [TypeSpec (''Map'',
           StructType (FieldList
             [Field [''data''] placeholderMap,
              Field [''mu''] (SelectorExpr (Ident ''sync'') ''RWMutex'')]))],
      FuncD fn_checkData, FuncD fn_Init, FuncD fn_Change, FuncD fn_Load, FuncD fn_Store,
      FuncD fn_Stores, FuncD fn_StoreMap, FuncD fn_LoadOrStore, FuncD fn_LoadAndDelete,
      FuncD fn_Delete, FuncD fn_DeleteAll, FuncD fn_Range, FuncD fn_Items, FuncD fn_ItemMap,
      FuncD fn_FromDB, FuncD fn_ToDB, FuncD fn_MarshalJSON, FuncD fn_UnmarshalJSON,
      FuncD fn_String]"

definition fn_AddStore_ExTrue :: FuncDecl where
  "fn_AddStore_ExTrue =
     \<lparr>Recv = recvMap, Name = ''AddStore'',
      Params = FieldList [Field [''key'', ''value''] placeholder],
      Results = Some (FieldList [Field [''ret''] placeholder]),
      Body = Some
        [ExprStmt (mu_call ''Lock''),
         ExprStmt (m_call ''checkData'' []),
         AssignStmt [Ident ''ret''] ''='' [IndexExpr m_data (Ident ''key'')],
         AssignStmt [Ident ''ret''] ''+='' [Ident ''value''],
         AssignStmt [IndexExpr m_data (Ident ''key'')] ''='' [Ident ''ret''],
         ExprStmt (mu_call ''Unlock''),
         ReturnStmt []]\<rparr>"

definition fn_AddStores_ExTrue :: FuncDecl where
  "fn_AddStores_ExTrue =
     \<lparr>Recv = recvMap, Name = ''AddStores'',
      Params = FieldList [Field [''keys'', ''values''] (ArrayType None placeholder)],
      Results = None,
      Body = Some
        [ExprStmt (mu_call ''Lock''),
         ExprStmt (m_call ''checkData'' []),
         RangeStmt (Some (Ident ''i'')) (Some (Ident ''key'')) '':='' (Ident ''keys'')
           [AssignStmt [IndexExpr m_data (Ident ''key'')] ''+=''
              [IndexExpr (Ident ''values'') (Ident ''i'')]],
         ExprStmt (mu_call ''Unlock''),
         ReturnStmt []]\<rparr>"

definition templateCodeExTrue :: "decl list" where
  "templateCodeExTrue = [FuncD fn_AddStore_ExTrue, FuncD fn_AddStores_ExTrue]"

definition fn_AddStore_ExFalse :: FuncDecl where
  "fn_AddStore_ExFalse =
     \<lparr>Recv = recvMap, Name = ''AddStore'',
      Params = FieldList [Field [''key'', ''value''] placeholder], Results = None,
      Body = Some
        [ExprStmt (CallExpr (Ident ''panic'') [BasicLit ''\"Not Implemented\"'']),
         ReturnStmt []]\<rparr>"

definition fn_AddStores_ExFalse :: FuncDecl where
  "fn_AddStores_ExFalse =
     \<lparr>Recv = recvMap, Name = ''AddStores'',
      Params = FieldList [Field [''key'', ''value''] (ArrayType None placeholder)],
      Results = None,
      Body = Some
        [ExprStmt (CallExpr (Ident ''panic'') [BasicLit ''\"Not Implemented\"'']),
         ReturnStmt []]\<rparr>"

definition templateCodeExFalse :: "decl list" where
  "templateCodeExFalse = [FuncD fn_AddStore_ExFalse, FuncD fn_AddStores_ExFalse]"

text \<open>
  \<^verbatim>\<open>Mutate\<close>: the flag \<^verbatim>\<open>-ex\<close> chooses the text appended to \<^verbatim>\<open>templateCode\<close>; the package
  clause of the template is \<^verbatim>\<open>package rwmap\<close>.
\<close>

definition ParseFile_template :: "bool \<Rightarrow> File" where
  "ParseFile_template ex =
     \<lparr>PkgName = ''rwmap'',
      Decls = templateCode @ (if ex then templateCodeExTrue else templateCodeExFalse)\<rparr>"


subsection \<open>\<^verbatim>\<open>Gen\<close> and \<^verbatim>\<open>main\<close>\<close>

text \<open>
  \<^verbatim>\<open>Gen\<close> prints \<^verbatim>\<open>g.file\<close>, runs goimports over the text and writes it to \<^verbatim>\<open>g.out\<close>.
  Printing and writing are outside the model: \<open>Gen\<close> answers with the tree that is
  printed, and \<open>main\<close> with the tree of the artifact, or with the error that ended the run
  before anything was written. \<open>generate\<close> is the part of \<open>main\<close> after \<^verbatim>\<open>NewGenerator\<close>,
  for any tree \<^verbatim>\<open>parser.ParseFile\<close> may return.
\<close>

definition Gen :: "Generator \<Rightarrow> error + File" where
  "Gen g =
     (case file' g of
        None \<Rightarrow> Inl (GenError ''format mutated code: %s'' [])
      | Some f \<Rightarrow> Inr f)"

definition generate :: "golib \<Rightarrow> Generator \<Rightarrow> Registry \<Rightarrow> File \<Rightarrow> error + File" where
  "generate L g r f0 = bindE (mutate L g r f0) (\<lambda>(g', r'). Gen g')"


subsection \<open>A library for the examples\<close>

text \<open>
  The general theorems below hold for every library. The examples are evaluated with this
  one: Go's parser and printer on the type expressions made of identifiers, qualified
  identifiers, \<^verbatim>\<open>*\<close>, \<^verbatim>\<open>[]\<close>, \<^verbatim>\<open>map[ ]\<close> and \<^verbatim>\<open>interface{}\<close> (any other text is a syntax
  error here), and \<^verbatim>\<open>strings.Title\<close> and \<^verbatim>\<open>strings.ToLower\<close> on ASCII text.
\<close>

definition isLetter :: "char \<Rightarrow> bool" where
  "isLetter c = (c \<in> set ''abcdefghijklmnopqrstuvwxyzABCDEFGHIJKLMNOPQRSTUVWXYZ_'')"

definition isDigit :: "char \<Rightarrow> bool" where
  "isDigit c = (c \<in> set ''0123456789'')"

definition scanIdent :: "string \<Rightarrow> (string \<times> string) option" where
  "scanIdent s =
     (case s of
        [] \<Rightarrow> None
      | c # cs \<Rightarrow>
          if isLetter c
          then Some (c # takeWhile (\<lambda>x. isLetter x \<or> isDigit x) cs,
                     dropWhile (\<lambda>x. isLetter x \<or> isDigit x) cs)
          else None)"

fun parseType :: "nat \<Rightarrow> string \<Rightarrow> (expr \<times> string) option" where
  "parseType 0 s = None"
| "parseType (Suc n) s =
     (if take 1 s = ''*'' then map_option (\<lambda>(e, r). (StarExpr e, r)) (parseType n (drop 1 s))
      else if take 2 s = ''[]''
      then map_option (\<lambda>(e, r). (ArrayType None e, r)) (parseType n (drop 2 s))
      else if take 4 s = ''map[''
      then (case parseType n (drop 4 s) of
              None \<Rightarrow> None
            | Some (k, r) \<Rightarrow>
                if take 1 r = '']''
                then map_option (\<lambda>(v, r'). (MapType k v, r')) (parseType n (drop 1 r))
                else None)
      else if take 11 s = ''interface{}'' then Some (InterfaceType (FieldList []), drop 11 s)
      else case scanIdent s of
             None \<Rightarrow> None
           | Some (w, r) \<Rightarrow>
               if take 1 r = ''.''
               then map_option (\<lambda>(w', r'). (SelectorExpr (Ident w) w', r')) (scanIdent (drop 1 r))
               else Some (Ident w, r))"

definition exampleParseExpr :: "string \<Rightarrow> string + expr" where
  "exampleParseExpr s =
     (case parseType (Suc (length s)) s of
        Some (e, []) \<Rightarrow> Inr e
      | _ \<Rightarrow> Inl ''syntax error'')"

fun formatType :: "expr \<Rightarrow> string + string" where
  "formatType (Ident n) = Inr n"
| "formatType (SelectorExpr (Ident p) n) = Inr (p @ ''.'' @ n)"
| "formatType (StarExpr x) = map_sum id (\<lambda>t. ''*'' @ t) (formatType x)"
| "formatType (ArrayType None x) = map_sum id (\<lambda>t. ''[]'' @ t) (formatType x)"
| "formatType (MapType k v) =
     (case (formatType k, formatType v) of
        (Inr a, Inr b) \<Rightarrow> Inr (''map['' @ a @ '']'' @ b)
      | _ \<Rightarrow> Inl ''unsupported node'')"
| "formatType (InterfaceType (FieldList [])) = Inr ''interface{}''"
| "formatType e = Inl ''unsupported node''"

definition toUpperChar :: "char \<Rightarrow> char" where
  "toUpperChar c =
     (if c \<in> set ''abcdefghijklmnopqrstuvwxyz'' then char_of (of_char c - (32 :: nat)) else c)"

definition toLowerChar :: "char \<Rightarrow> char" where
  "toLowerChar c =
     (if c \<in> set ''ABCDEFGHIJKLMNOPQRSTUVWXYZ'' then char_of (of_char c + (32 :: nat)) else c)"

fun titleFrom :: "bool \<Rightarrow> string \<Rightarrow> string" where
  "titleFrom sep [] = []"
| "titleFrom sep (c # cs) =
     (if sep then toUpperChar c else c) # titleFrom (\<not> (isLetter c \<or> isDigit c)) cs"

definition exampleLib :: golib where
  "exampleLib =
     \<lparr>ParseExpr = exampleParseExpr, FormatNode = formatType,
      Title = titleFrom True, ToLower = map toLowerChar\<rparr>"

text \<open>A generator as \<^verbatim>\<open>NewGenerator\<close> leaves it for the argument \<^verbatim>\<open>map[k]v\<close>.\<close>

definition exampleGen :: "string \<Rightarrow> string \<Rightarrow> string \<Rightarrow> Generator" where
  "exampleGen n k v =
     \<lparr>pkg = ''main'', out = ''001_'' @ map toLowerChar n @ ''.go'', name = n, key = k,
      value' = v, file' = None\<rparr>"

subsection \<open>Measures on trees\<close>

text \<open>
  \<open>placeholderMaps\<close> counts the map types whose key and value are both interface types,
  the nodes \<^verbatim>\<open>renameMapType\<close> looks for.
\<close>

fun placeholderMaps :: "expr \<Rightarrow> nat"
  and placeholderMaps_Field :: "field \<Rightarrow> nat"
  and placeholderMaps_FieldList :: "field_list \<Rightarrow> nat" where
  "placeholderMaps (Ident n) = 0"
| "placeholderMaps (BasicLit v) = 0"
| "placeholderMaps (CompositeLit t es) =
     (case t of None \<Rightarrow> 0 | Some x \<Rightarrow> placeholderMaps x) + sum_list (map placeholderMaps es)"
| "placeholderMaps (ParenExpr x) = placeholderMaps x"
| "placeholderMaps (SelectorExpr x sel) = placeholderMaps x"
| "placeholderMaps (IndexExpr x i) = placeholderMaps x + placeholderMaps i"
| "placeholderMaps (CallExpr f as) = placeholderMaps f + sum_list (map placeholderMaps as)"
| "placeholderMaps (StarExpr x) = placeholderMaps x"
| "placeholderMaps (UnaryExpr op x) = placeholderMaps x"
| "placeholderMaps (BinaryExpr x op y) = placeholderMaps x + placeholderMaps y"
| "placeholderMaps (ArrayType len elt) =
     (case len of None \<Rightarrow> 0 | Some x \<Rightarrow> placeholderMaps x) + placeholderMaps elt"
| "placeholderMaps (StructType fs) = placeholderMaps_FieldList fs"
| "placeholderMaps (FuncType ps rs) =
     placeholderMaps_FieldList ps +
     (case rs of None \<Rightarrow> 0 | Some l \<Rightarrow> placeholderMaps_FieldList l)"
| "placeholderMaps (InterfaceType ms) = placeholderMaps_FieldList ms"
| "placeholderMaps (MapType k v) =
     (if isIFace k \<and> isIFace v then 1 else 0) + placeholderMaps k + placeholderMaps v"
| "placeholderMaps (ChanType v) = placeholderMaps v"
| "placeholderMaps_Field (Field names t) = placeholderMaps t"
| "placeholderMaps_FieldList (FieldList fs) = sum_list (map placeholderMaps_Field fs)"

text \<open>\<open>ifaces\<close> counts the interface types of a tree, nested ones included.\<close>

fun ifaces :: "expr \<Rightarrow> nat"
  and ifaces_Field :: "field \<Rightarrow> nat"
  and ifaces_FieldList :: "field_list \<Rightarrow> nat" where
  "ifaces (Ident n) = 0"
| "ifaces (BasicLit v) = 0"
| "ifaces (CompositeLit t es) =
     (case t of None \<Rightarrow> 0 | Some x \<Rightarrow> ifaces x) + sum_list (map ifaces es)"
| "ifaces (ParenExpr x) = ifaces x"
| "ifaces (SelectorExpr x sel) = ifaces x"
| "ifaces (IndexExpr x i) = ifaces x + ifaces i"
| "ifaces (CallExpr f as) = ifaces f + sum_list (map ifaces as)"
| "ifaces (StarExpr x) = ifaces x"
| "ifaces (UnaryExpr op x) = ifaces x"
| "ifaces (BinaryExpr x op y) = ifaces x + ifaces y"
| "ifaces (ArrayType len elt) = (case len of None \<Rightarrow> 0 | Some x \<Rightarrow> ifaces x) + ifaces elt"
| "ifaces (StructType fs) = ifaces_FieldList fs"
| "ifaces (FuncType ps rs) =
     ifaces_FieldList ps + (case rs of None \<Rightarrow> 0 | Some l \<Rightarrow> ifaces_FieldList l)"
| "ifaces (InterfaceType ms) = 1 + ifaces_FieldList ms"
| "ifaces (MapType k v) = ifaces k + ifaces v"
| "ifaces (ChanType v) = ifaces v"
| "ifaces_Field (Field names t) = ifaces t"
| "ifaces_FieldList (FieldList fs) = sum_list (map ifaces_Field fs)"

fun ifaces_stmt :: "stmt \<Rightarrow> nat" where
  "ifaces_stmt (ExprStmt x) = ifaces x"
| "ifaces_stmt (AssignStmt lhs tok rhs) = sum_list (map ifaces lhs) + sum_list (map ifaces rhs)"
| "ifaces_stmt (IncDecStmt x tok) = ifaces x"
| "ifaces_stmt (DeferStmt c) = ifaces c"
| "ifaces_stmt (ReturnStmt rs) = sum_list (map ifaces rs)"
| "ifaces_stmt (BranchStmt tok label) = 0"
| "ifaces_stmt (BlockStmt ss) = sum_list (map ifaces_stmt ss)"
| "ifaces_stmt (IfStmt init cond body els) =
     (case init of None \<Rightarrow> 0 | Some s \<Rightarrow> ifaces_stmt s) + ifaces cond +
     sum_list (map ifaces_stmt body) + (case els of None \<Rightarrow> 0 | Some s \<Rightarrow> ifaces_stmt s)"
| "ifaces_stmt (RangeStmt k v tok x body) =
     (case k of None \<Rightarrow> 0 | Some e \<Rightarrow> ifaces e) + (case v of None \<Rightarrow> 0 | Some e \<Rightarrow> ifaces e) +
     ifaces x + sum_list (map ifaces_stmt body)"

definition ifaces_FuncDecl :: "FuncDecl \<Rightarrow> nat" where
  "ifaces_FuncDecl f =
     (case Recv f of None \<Rightarrow> 0 | Some l \<Rightarrow> ifaces_FieldList l) + ifaces_FieldList (Params f) +
     (case Results f of None \<Rightarrow> 0 | Some l \<Rightarrow> ifaces_FieldList l) +
     (case Body f of None \<Rightarrow> 0 | Some ss \<Rightarrow> sum_list (map ifaces_stmt ss))"




text \<open>
  The results of the return statements of a body, in source order, and the tokens of its
  assignments.
\<close>

fun returnResults :: "stmt \<Rightarrow> expr list" where
  "returnResults (ReturnStmt rs) = rs"
| "returnResults (BlockStmt ss) = concat (map returnResults ss)"
| "returnResults (IfStmt init cond body els) =
     (case init of None \<Rightarrow> [] | Some s \<Rightarrow> returnResults s) @ concat (map returnResults body) @
     (case els of None \<Rightarrow> [] | Some s \<Rightarrow> returnResults s)"
| "returnResults (RangeStmt k v tok x body) = concat (map returnResults body)"
| "returnResults s = []"

definition returnResults_Body :: "stmt list option \<Rightarrow> expr list" where
  "returnResults_Body b = (case b of None \<Rightarrow> [] | Some ss \<Rightarrow> concat (map returnResults ss))"



text \<open>
  The name under which the walk looks a declaration up in each table: a function
  declaration by its name, a general declaration by the first name of its first spec, when
  that is a type spec or a value spec.
\<close>

definition funcName :: "decl \<Rightarrow> string option" where
  "funcName d = (case d of FuncD fd \<Rightarrow> Some (Name fd) | _ \<Rightarrow> None)"

definition typeName :: "decl \<Rightarrow> string option" where
  "typeName d = (case d of GenDecl tok (TypeSpec (n, t) # rest) \<Rightarrow> Some n | _ \<Rightarrow> None)"

definition valueName :: "decl \<Rightarrow> string option" where
  "valueName d =
     (case d of GenDecl tok (ValueSpec (n # ns, t, vs) # rest) \<Rightarrow> Some n | _ \<Rightarrow> None)"

definition funcNames :: "decl list \<Rightarrow> string list" where
  "funcNames ds = List.map_filter funcName ds"

definition typeNames :: "decl list \<Rightarrow> string list" where
  "typeNames ds = List.map_filter typeName ds"

definition valueNames :: "decl list \<Rightarrow> string list" where
  "valueNames ds = List.map_filter valueName ds"

text \<open>
  The registry \<^verbatim>\<open>NewGenerator\<close> builds, and the registry with every entry consumed.
\<close>

abbreviation registry :: Registry where
  "registry \<equiv> \<lparr>funcs = Funcs, types = Types, values' = Values\<rparr>"


text \<open>
  A registry keeps names when no handler changes the name of the declaration it is given
  (the walk deletes the entry of the name the declaration has after the handler), and it
  has no handler for values.
\<close>

definition keeps_names :: "golib \<Rightarrow> Generator \<Rightarrow> Registry \<Rightarrow> bool" where
  "keeps_names L g r \<longleftrightarrow>
     (\<forall>n h fd fd'. (n, h) \<in> set (funcs r) \<longrightarrow> h L g fd = Inr fd' \<longrightarrow> Name fd' = Name fd) \<and>
     (\<forall>n h x y. (n, h) \<in> set (types r) \<longrightarrow> h L g x = Inr y \<longrightarrow> fst y = fst x) \<and>
     values' r = []"

section \<open>Properties\<close>

subsection \<open>Auxiliary facts\<close>

lemma bindE_eq_Inr:
  "bindE m k = Inr y \<longleftrightarrow> (\<exists>x. m = Inr x \<and> k x = Inr y)"
  by (cases m) auto

lemma map_sum_bindE:
  "map_sum id f (bindE m k) = bindE m (\<lambda>x. map_sum id f (k x))"
  by (cases m) auto

lemma seqE_map_id:
  "(\<And>x. x \<in> set xs \<Longrightarrow> f x = Inr x) \<Longrightarrow> seqE (map f xs) = Inr xs"
  by (induction xs) auto

lemma map_option_idem:
  "(\<And>a. x = Some a \<Longrightarrow> f (f a) = f a) \<Longrightarrow> map_option (\<lambda>z. f (f z)) x = map_option f x"
  by (cases x) auto


lemmas template_defs =
  templateCode_def templateCodeExTrue_def templateCodeExFalse_def
  fn_checkData_def fn_Init_def fn_Change_def fn_Load_def fn_Store_def fn_Stores_def
  fn_StoreMap_def fn_LoadOrStore_def fn_LoadAndDelete_def fn_Delete_def fn_DeleteAll_def
  fn_Range_def fn_Items_def fn_ItemMap_def fn_FromDB_def fn_ToDB_def fn_MarshalJSON_def
  fn_UnmarshalJSON_def fn_String_def fn_AddStore_ExTrue_def fn_AddStores_ExTrue_def
  fn_AddStore_ExFalse_def fn_AddStores_ExFalse_def

lemmas primitive_defs =
  Apply_Expr_def Apply_Field_def Apply_FieldList_def Apply_Results_def Apply_Body_def
  Apply_FuncDecl_def replaceKey_def replaceValue_def replaceIface_def renameMapType_def
  isIFace_def shared_def pass_def renameMapKeysValues_def renameMapKeysValues_assign_def
  renameNil_def renameNil_result_def firstResultName_def loadHandler_def

lemmas run_defs =
  ParseFile_template_def template_defs primitive_defs mutateDecl_def Funcs_def Types_def
  Values_def ifaces_FuncDecl_def

text \<open>The example library on the texts of the examples.\<close>

lemma expr_example:
  "expr exampleLib ''string'' = Inr (Ident ''string'')"
  "expr exampleLib ''int'' = Inr (Ident ''int'')"
  "expr exampleLib ''map[string]int'' = Inr (MapType (Ident ''string'') (Ident ''int''))"
  "expr exampleLib ''map[int]int'' = Inr (MapType (Ident ''int'') (Ident ''int''))"
  "expr exampleLib ''interface{}'' = Inr placeholder"
  "expr exampleLib ''map[string]interface{}'' = Inr (MapType (Ident ''string'') placeholder)"
  by (simp_all add: expr_def exampleLib_def exampleParseExpr_def check_def scanIdent_def
      isLetter_def isDigit_def)


text \<open>\<^verbatim>\<open>renameMapType\<close> leaves a tree without placeholder maps alone.\<close>

lemma renameMapType_fixes:
  "placeholderMaps e = 0 \<Longrightarrow> walk_expr (renameMapType L g) e = Inr e"
  "placeholderMaps e = 0 \<Longrightarrow> walk_children (renameMapType L g) e = Inr e"
  "placeholderMaps_Field f = 0 \<Longrightarrow> walk_Field (renameMapType L g) f = Inr f"
  "placeholderMaps_FieldList l = 0 \<Longrightarrow> walk_FieldList (renameMapType L g) l = Inr l"
proof (induction "renameMapType L g" e and "renameMapType L g" e and "renameMapType L g" f
    and "renameMapType L g" l rule: walk_expr_walk_children_walk_Field_walk_FieldList.induct)
  case (1 e)
  then show ?case by (cases e) (auto simp: renameMapType_def split: if_splits)
next
  case (4 t es)
  then show ?case by (cases t) (auto simp: seqE_map_id)
next
  case (8 f as)
  then show ?case by (auto simp: seqE_map_id)
next
  case (12 len elt)
  then show ?case by (cases len) auto
next
  case (14 ps rs)
  then show ?case by (cases rs) auto
next
  case (19 fs)
  then show ?case by (auto simp: seqE_map_id)
qed auto







subsection \<open>Template drift\<close>

text \<open>The walk, one round and then the whole list, in terms of the names looked up.\<close>

lemma keys_delete: "fst ` set (AList.delete k al) = fst ` set al - {k}"
  using delete_keys [of k al] by (metis set_map set_removeAll)

lemma mutateDecl_names:
  assumes "mutateDecl L g r d = Inr (r', d')" and "keeps_names L g r"
  shows "keeps_names L g r'
    \<and> fst ` set (funcs r') = fst ` set (funcs r) - set_option (funcName d)
    \<and> set_option (funcName d) \<subseteq> fst ` set (funcs r)
    \<and> fst ` set (types r') = fst ` set (types r) - set_option (typeName d)
    \<and> set_option (typeName d) \<subseteq> fst ` set (types r)
    \<and> valueName d = None"
proof (cases d)
  case (FuncD fd)
  with assms obtain h fd' where h: "map_of (funcs r) (Name fd) = Some h" "h L g fd = Inr fd'"
    and r': "r' = r\<lparr>funcs := AList.delete (Name fd') (funcs r)\<rparr>"
    by (auto simp: mutateDecl_def bindE_eq_Inr split: option.splits)
  from h(1) have mem: "(Name fd, h) \<in> set (funcs r)" by (rule map_of_SomeD)
  with h(2) assms(2) have same: "Name fd' = Name fd" unfolding keeps_names_def by blast
  from assms(2) have "keeps_names L g r'"
    unfolding keeps_names_def r' by (simp add: AList.delete_eq) blast
  moreover from mem have "Name fd \<in> fst ` set (funcs r)" by force
  ultimately show ?thesis
    using FuncD by (simp add: r' same keys_delete funcName_def typeName_def valueName_def)
next
  case (GenDecl tok specs)
  show ?thesis
  proof (cases specs)
    case Nil
    with GenDecl assms show ?thesis by (simp add: mutateDecl_def)
  next
    case (Cons s rest)
    show ?thesis
    proof (cases s)
      case (ImportSpec n p)
      with GenDecl Cons assms show ?thesis
        by (auto simp: mutateDecl_def funcName_def typeName_def valueName_def)
    next
      case (TypeSpec ts)
      obtain n t where ts: "ts = (n, t)" by (cases ts)
      with TypeSpec GenDecl Cons assms obtain h n' t' where
        h: "map_of (types r) n = Some h" "h L g (n, t) = Inr (n', t')"
        and r': "r' = r\<lparr>types := AList.delete n' (types r)\<rparr>"
        by (auto simp: mutateDecl_def bindE_eq_Inr split: option.splits)
      from h(1) have mem: "(n, h) \<in> set (types r)" by (rule map_of_SomeD)
      with h(2) assms(2) have same: "n' = n" unfolding keeps_names_def by fastforce
      from assms(2) have "keeps_names L g r'"
        unfolding keeps_names_def r' by (simp add: AList.delete_eq) blast
      moreover from mem have "n \<in> fst ` set (types r)" by force
      ultimately show ?thesis
        using GenDecl Cons TypeSpec ts
        by (simp add: r' same keys_delete funcName_def typeName_def valueName_def)
    next
      case (ValueSpec vs)
      obtain names t vals where vs: "vs = (names, t, vals)" by (cases vs)
      from assms(2) have "values' r = []" by (simp add: keeps_names_def)
      with ValueSpec GenDecl Cons assms vs show ?thesis
        by (auto simp: mutateDecl_def valueName_def split: list.splits)
    qed
  qed
next
  case BadDecl
  with assms show ?thesis by (simp add: mutateDecl_def)
qed

lemma set_map_filter_Cons:
  "set (List.map_filter f (x # xs)) = set_option (f x) \<union> set (List.map_filter f xs)"
  by (cases "f x") auto

lemma mutateDecls_names:
  assumes "mutateDecls L g r ds = Inr (r', ds')" and "keeps_names L g r"
  shows "fst ` set (funcs r') = fst ` set (funcs r) - set (funcNames ds)
    \<and> set (funcNames ds) \<subseteq> fst ` set (funcs r)
    \<and> fst ` set (types r') = fst ` set (types r) - set (typeNames ds)
    \<and> set (typeNames ds) \<subseteq> fst ` set (types r)
    \<and> valueNames ds = [] \<and> values' r' = []"
  using assms
proof (induction ds arbitrary: r r' ds')
  case Nil
  then show ?case
    by (auto simp: funcNames_def typeNames_def valueNames_def keeps_names_def)
next
  case (Cons d ds)
  from Cons.prems(1) obtain r1 d1 r2 ds2 where
    step: "mutateDecl L g r d = Inr (r1, d1)" and rest: "mutateDecls L g r1 ds = Inr (r2, ds2)"
    and r': "r' = r2"
    by (auto simp: bindE_eq_Inr)
  note one = mutateDecl_names [OF step Cons.prems(2)]
  then have k1: "keeps_names L g r1" by simp
  note ih = Cons.IH [OF rest k1]
  from one ih show ?case
    unfolding r' funcNames_def typeNames_def valueNames_def set_map_filter_Cons
    by auto
qed

text \<open>\<^verbatim>\<open>AddImport\<close> changes no name the walk looks up.\<close>

lemma names_addSpec:
  "funcName (GenDecl tok (specs @ [ImportSpec n p])) = funcName (GenDecl tok specs)"
  "typeName (GenDecl tok (specs @ [ImportSpec n p])) = typeName (GenDecl tok specs)"
  "valueName (GenDecl tok (specs @ [ImportSpec n p])) = valueName (GenDecl tok specs)"
  by (cases specs; simp add: funcName_def typeName_def valueName_def)+

lemma addSpec_map_filter:
  assumes "\<And>tok specs. h (GenDecl tok (specs @ [s])) = h (GenDecl tok specs)"
  shows "addSpec s ds = Some ds' \<Longrightarrow> List.map_filter h ds' = List.map_filter h ds"
proof (induction ds arbitrary: ds')
  case Nil
  then show ?case by simp
next
  case (Cons d ds)
  show ?case
  proof (cases d)
    case (GenDecl tok specs)
    with Cons assms show ?thesis
      by (cases "h (GenDecl tok specs)") (auto split: if_splits)
  next
    case (FuncD fd)
    with Cons show ?thesis
      by (cases "h (FuncD fd)") auto
  next
    case BadDecl
    with Cons show ?thesis
      by (cases "h BadDecl") auto
  qed
qed

lemma AddImport_map_filter:
  assumes "\<And>tok specs. h (GenDecl tok (specs @ [ImportSpec None p])) = h (GenDecl tok specs)"
    and "h (GenDecl ''import'' [ImportSpec None p]) = None"
  shows "List.map_filter h (Decls (AddImport f p)) = List.map_filter h (Decls f)"
proof (cases "addSpec (ImportSpec None p) (Decls f)")
  case None
  with assms(2) show ?thesis
    by (simp add: AddImport_def)
next
  case (Some ds)
  from addSpec_map_filter [of h "ImportSpec None p", OF assms(1) Some] Some show ?thesis
    by (simp add: AddImport_def)
qed

lemma AddImport_names:
  "funcNames (Decls (AddImport f p)) = funcNames (Decls f)"
  "typeNames (Decls (AddImport f p)) = typeNames (Decls f)"
  "valueNames (Decls (AddImport f p)) = valueNames (Decls f)"
proof -
  show "funcNames (Decls (AddImport f p)) = funcNames (Decls f)"
    unfolding funcNames_def
    by (rule AddImport_map_filter) (simp add: names_addSpec, simp add: funcName_def)
  show "typeNames (Decls (AddImport f p)) = typeNames (Decls f)"
    unfolding typeNames_def
    by (rule AddImport_map_filter) (simp add: names_addSpec, simp add: typeName_def)
  show "valueNames (Decls (AddImport f p)) = valueNames (Decls f)"
    unfolding valueNames_def
    by (rule AddImport_map_filter) (simp add: names_addSpec, simp add: valueName_def)
qed

text \<open>No handler of the program changes the name of its declaration.\<close>

lemma walk_Name:
  "Apply_FuncDecl cb f = Inr f' \<Longrightarrow> Name f' = Name f"
  by (auto simp: Apply_FuncDecl_def bindE_eq_Inr)

lemma Funcs_keep_Name:
  assumes "(n, h) \<in> set Funcs" and "h L g fd = Inr fd'"
  shows "Name fd' = Name fd"
proof -
  from assms(1) consider
      "h = (\<lambda>L g f. bindE (Apply_Body (renameMapType L g) (Body f)) (\<lambda>b. Inr (f\<lparr>Body := b\<rparr>)))"
    | "h = (\<lambda>L g f. bindE (Apply_FieldList (renameMapType L g) (Params f))
              (\<lambda>ps. Inr (f\<lparr>Params := ps\<rparr>)))"
    | "h = loadHandler"
    | "h = (\<lambda>L g f. bindE (renameTuple L g (Params f)) (\<lambda>ps. Inr (f\<lparr>Params := ps\<rparr>)))"
    | "h = (\<lambda>L g f. bindE (renameTuple L g (Params f))
          (\<lambda>ps. bindE (Apply_Results (replaceValue L g) (Results f))
            (\<lambda>rs. Inr (f\<lparr>Params := ps, Results := rs\<rparr>))))"
    | "h = (\<lambda>L g f. bindE (renameTupleList L g (Params f)) (\<lambda>ps. Inr (f\<lparr>Params := ps\<rparr>)))"
    | "h = (\<lambda>L g f.
        case Params f of
          FieldList [] \<Rightarrow> Inl (Panic ''index out of range'')
        | FieldList (Field names (FuncType ps rs) # rest) \<Rightarrow>
            bindE (renameTuple L g ps)
              (\<lambda>ps'. Inr (f\<lparr>Params := FieldList (Field names (FuncType ps' rs) # rest)\<rparr>))
        | _ \<Rightarrow> Inl (Panic ''interface conversion: ast.Expr is not *ast.FuncType''))"
    | "h = (\<lambda>L g f.
        case Results f of
          None \<Rightarrow> Inl (Panic ''nil pointer dereference'')
        | Some l \<Rightarrow>
            bindE (renameTupleList L g l)
              (\<lambda>l'. bindE (renameMapKeysValues L g (Body f))
                (\<lambda>b. Inr (f\<lparr>Results := Some l', Body := b\<rparr>))))"
    | "h = (\<lambda>L g f.
        bindE (Apply_Results (renameMapType L g) (Results f))
          (\<lambda>rs. bindE (Apply_Body (renameMapType L g) (Body f))
            (\<lambda>b. Inr (f\<lparr>Results := rs, Body := b\<rparr>))))"
    | "h = (\<lambda>L g f.
        bindE (Apply_FieldList (renameMapType L g) (Params f))
          (\<lambda>ps. bindE (Apply_Body (renameMapType L g) (Body f))
            (\<lambda>b. Inr (f\<lparr>Params := ps, Body := b\<rparr>))))"
    | "h = (\<lambda>L g f. Apply_FuncDecl (replaceKey L g) f)"
    | "h = (\<lambda>L g f. bindE (renameMapKeysValues L g (Body f)) (\<lambda>b. Inr (f\<lparr>Body := b\<rparr>)))"
    | "h = (\<lambda>L g f. Inr f)"
    by (auto simp: Funcs_def)
  then show ?thesis
  proof cases
    case 7
    with assms(2) show ?thesis
      by (auto simp: bindE_eq_Inr split: field_list.splits list.splits field.splits expr.splits)
  next
    case 8
    with assms(2) show ?thesis
      by (auto simp: bindE_eq_Inr split: option.splits)
  next
    case 11
    with assms(2) show ?thesis by (simp add: walk_Name)
  qed (use assms(2) in \<open>auto simp: bindE_eq_Inr loadHandler_def\<close>)
qed

lemma Types_keep_Name:
  assumes "(n, h) \<in> set Types" and "h L g x = Inr y"
  shows "fst y = fst x"
  using assms
  by (cases x) (auto simp: Types_def bindE_eq_Inr split: field_list.splits list.splits expr.splits)

lemma registry_keeps_names:
  "keeps_names L g registry"
  unfolding keeps_names_def
  using Funcs_keep_Name Types_keep_Name by (simp add: Values_def)

text \<open>
  Claim C1. \<open>generate\<close> is \<^verbatim>\<open>main\<close> after \<^verbatim>\<open>NewGenerator\<close>, on any tree \<open>f\<close> that
  \<^verbatim>\<open>parser.ParseFile\<close> may return for the template, with the registry of the program. The
  walk meets a declaration without a handler exactly when a name it looks up is not a key
  of the table of its kind; a handler is never invoked exactly when its key is not such a
  name. In both cases the sets of names and of keys differ for some kind, and the run ends
  in an error: \<^verbatim>\<open>Gen\<close> is not reached and nothing is written.
\<close>

theorem generate_fails_on_drift:
  assumes "set (funcNames (Decls f)) \<noteq> set (map fst Funcs)
         \<or> set (typeNames (Decls f)) \<noteq> set (map fst Types)
         \<or> set (valueNames (Decls f)) \<noteq> set (map fst Values)"
  shows "\<exists>e. generate L g registry f = Inl e"
proof (rule ccontr)
  assume "\<nexists>e. generate L g registry f = Inl e"
  then obtain tree where "generate L g registry f = Inr tree"
    by (cases "generate L g registry f") auto
  then obtain r' ds' where
    walk: "mutateDecls L g registry (Decls (AddImport (f\<lparr>PkgName := pkg g\<rparr>) ''sync'')) =
             Inr (r', ds')"
    and empty: "funcs r' = []" "types r' = []"
    by (auto simp: generate_def mutate_def Let_def bindE_eq_Inr expect_def split: if_splits)
  from mutateDecls_names [OF walk registry_keeps_names] empty assms
  show False
    by (auto simp: AddImport_names Values_def)
qed

text \<open>
  Two templates that have drifted: the template without its last declaration, \<^verbatim>\<open>String\<close>,
  whose handler is then never invoked, and the template with one more function, for
  which there is no handler.
\<close>

theorem generate_fails_on_drift_witness:
  "(set (funcNames (butlast templateCode @ templateCodeExFalse)) \<noteq> set (map fst Funcs)
    \<and> generate exampleLib (exampleGen ''Map'' ''string'' ''int'') registry
        \<lparr>PkgName = ''rwmap'', Decls = butlast templateCode @ templateCodeExFalse\<rparr> =
      Inl (GenError ''function was deleted'' []))
   \<and> (set (funcNames (templateCode @ templateCodeExFalse @ [FuncD (fn_String\<lparr>Name := ''Extra''\<rparr>)]))
        \<noteq> set (map fst Funcs)
    \<and> generate exampleLib (exampleGen ''Map'' ''string'' ''int'') registry
        \<lparr>PkgName = ''rwmap'',
         Decls = templateCode @ templateCodeExFalse @ [FuncD (fn_String\<lparr>Name := ''Extra''\<rparr>)]\<rparr> =
      Inl (GenError ''unrecognized function: %s'' [''Extra'']))"
proof -
  let ?g = "exampleGen ''Map'' ''string'' ''int''"
  let ?f1 = "\<lparr>PkgName = ''rwmap'', Decls = butlast templateCode @ templateCodeExFalse\<rparr>"
  let ?f2 = "\<lparr>PkgName = ''rwmap'',
              Decls = templateCode @ templateCodeExFalse @ [FuncD (fn_String\<lparr>Name := ''Extra''\<rparr>)]\<rparr>"
  have in1: "''String'' \<in> set (map fst Funcs)"
    by (simp add: Funcs_def)
  have out1: "''String'' \<notin> set (funcNames (butlast templateCode @ templateCodeExFalse))"
    by (simp add: funcNames_def funcName_def template_defs)
  from in1 out1 have d1: "set (funcNames (Decls ?f1)) \<noteq> set (map fst Funcs)"
    by auto
  have in2: "''Extra'' \<in> set (funcNames
      (templateCode @ templateCodeExFalse @ [FuncD (fn_String\<lparr>Name := ''Extra''\<rparr>)]))"
    by (simp add: funcNames_def funcName_def template_defs)
  have out2: "''Extra'' \<notin> set (map fst Funcs)"
    by (simp add: Funcs_def)
  from in2 out2 have d2: "set (funcNames (Decls ?f2)) \<noteq> set (map fst Funcs)"
    by auto
  note keys = exampleGen_def expr_example
  have e1: "generate exampleLib ?g registry ?f1 = Inl (GenError ''function was deleted'' [])"
    using generate_fails_on_drift [of ?f1 exampleLib ?g, OF disjI1 [OF d1]]
    by (simp add: generate_def mutate_def AddImport_def imports'_def isImport_def expect_def
        run_defs keys)
  have e2: "generate exampleLib ?g registry ?f2 =
      Inl (GenError ''unrecognized function: %s'' [''Extra''])"
    using generate_fails_on_drift [of ?f2 exampleLib ?g, OF disjI1 [OF d2]]
    by (simp add: generate_def mutate_def AddImport_def imports'_def isImport_def expect_def
        run_defs keys)
  from d1 d2 e1 e2 show ?thesis by simp
qed

subsection \<open>Placeholders left after a run\<close>




subsection \<open>Dual-slot fields\<close>

text \<open>
  Claim C3. A dual-slot declaration is a field list of one field with two names whose
  type is the placeholder (a key and a value) or a slice of the placeholder (parallel
  keys and values, as parameters or as results). When the key text equals the value text,
  \<^verbatim>\<open>renameTuple\<close> and \<^verbatim>\<open>renameTupleList\<close> leave one field, with both names, of the key
  type. Otherwise they leave two fields in this order: the first name with the key type,
  the second name with the value type. \<open>ek\<close> and \<open>ev\<close> are the trees \<^verbatim>\<open>expr\<close> builds from
  the two texts.
\<close>

theorem renameTuple_dual_slot:
  assumes "expr L (key g) = Inr ek" and "expr L (value' g) = Inr ev"
  shows "renameTuple L g (FieldList [Field [n1, n2] placeholder]) =
           Inr (if key g = value' g then FieldList [Field [n1, n2] ek]
                else FieldList [Field [n1] ek, Field [n2] ev])
       \<and> renameTupleList L g (FieldList [Field [n1, n2] (ArrayType None placeholder)]) =
           Inr (if key g = value' g then FieldList [Field [n1, n2] (ArrayType None ek)]
                else FieldList [Field [n1] (ArrayType None ek), Field [n2] (ArrayType None ev)])"
  using assms
  by (auto simp: Apply_Field_def shared_def pass_def replaceValue_def replaceKey_def
      replaceIface_def)

theorem renameTuple_dual_slot_witness:
  "(renameTuple exampleLib (exampleGen ''Map'' ''string'' ''int'')
      (FieldList [Field [''key'', ''value''] placeholder]) =
      Inr (FieldList [Field [''key''] (Ident ''string''), Field [''value''] (Ident ''int'')])
    \<and> renameTupleList exampleLib (exampleGen ''Map'' ''string'' ''int'')
      (FieldList [Field [''keys'', ''values''] (ArrayType None placeholder)]) =
      Inr (FieldList [Field [''keys''] (ArrayType None (Ident ''string'')),
                      Field [''values''] (ArrayType None (Ident ''int''))]))
   \<and> (renameTuple exampleLib (exampleGen ''Map'' ''int'' ''int'')
      (FieldList [Field [''key'', ''value''] placeholder]) =
      Inr (FieldList [Field [''key'', ''value''] (Ident ''int'')])
    \<and> renameTupleList exampleLib (exampleGen ''Map'' ''int'' ''int'')
      (FieldList [Field [''keys'', ''values''] (ArrayType None placeholder)]) =
      Inr (FieldList [Field [''keys'', ''values''] (ArrayType None (Ident ''int''))]))"
  using renameTuple_dual_slot [of exampleLib "exampleGen ''Map'' ''string'' ''int''"
      "Ident ''string''" "Ident ''int''" "''key''" "''value''"]
    renameTuple_dual_slot [of exampleLib "exampleGen ''Map'' ''string'' ''int''"
      "Ident ''string''" "Ident ''int''" "''keys''" "''values''"]
    renameTuple_dual_slot [of exampleLib "exampleGen ''Map'' ''int'' ''int''"
      "Ident ''int''" "Ident ''int''" "''key''" "''value''"]
    renameTuple_dual_slot [of exampleLib "exampleGen ''Map'' ''int'' ''int''"
      "Ident ''int''" "Ident ''int''" "''keys''" "''values''"]
  by (simp add: exampleGen_def expr_example)

subsection \<open>Map types\<close>

text \<open>
  Claim C4. Where \<^verbatim>\<open>renameMapType\<close> reaches a map type, it replaces the node by the parsed
  text \<^verbatim>\<open>map[K]V\<close> exactly when its key and its value are both interface types; otherwise
  the node stays a map type and the walk goes on into its key and its value. A tree with
  no map type of two placeholders comes back as it was, whatever the text parses to.
\<close>

theorem renameMapType_both_placeholders:
  "walk_expr (renameMapType L g) (MapType k v) =
     (if isIFace k \<and> isIFace v then expr L (''map['' @ key g @ '']'' @ value' g)
      else bindE (walk_expr (renameMapType L g) k)
             (\<lambda>k'. bindE (walk_expr (renameMapType L g) v) (\<lambda>v'. Inr (MapType k' v'))))
   \<and> (placeholderMaps e = 0 \<longrightarrow> walk_expr (renameMapType L g) e = Inr e)"
proof
  show "walk_expr (renameMapType L g) (MapType k v) =
     (if isIFace k \<and> isIFace v then expr L (''map['' @ key g @ '']'' @ value' g)
      else bindE (walk_expr (renameMapType L g) k)
             (\<lambda>k'. bindE (walk_expr (renameMapType L g) v) (\<lambda>v'. Inr (MapType k' v'))))"
    by (simp add: renameMapType_def)
  show "placeholderMaps e = 0 \<longrightarrow> walk_expr (renameMapType L g) e = Inr e"
    using renameMapType_fixes(1) by blast
qed

theorem renameMapType_both_placeholders_witness:
  "walk_expr (renameMapType exampleLib (exampleGen ''Map'' ''string'' ''int'')) placeholderMap =
     Inr (MapType (Ident ''string'') (Ident ''int''))
   \<and> placeholderMaps (MapType (Ident ''string'') placeholder) = 0
   \<and> walk_expr (renameMapType exampleLib (exampleGen ''Map'' ''string'' ''int''))
       (MapType (Ident ''string'') placeholder) = Inr (MapType (Ident ''string'') placeholder)"
  using renameMapType_both_placeholders [of exampleLib "exampleGen ''Map'' ''string'' ''int''"
      placeholder placeholder "MapType (Ident ''string'') placeholder"]
  by (simp add: isIFace_def exampleGen_def expr_example)

subsection \<open>The absent value in return statements\<close>

lemma returnResults_renameNil_stmt:
  "returnResults (renameNil_stmt nm s) = map (renameNil_result nm) (returnResults s)"
  by (induction nm s rule: renameNil_stmt.induct)
    (auto simp: map_concat comp_def split: option.splits cong: map_cong)

lemma returnResults_renameNil:
  "returnResults_Body (renameNil b nm) = map (renameNil_result nm) (returnResults_Body b)"
  by (cases b)
    (auto simp: returnResults_Body_def renameNil_def returnResults_renameNil_stmt map_concat
      comp_def)

lemma renameNil_result_eq:
  "renameNil_result nm e = (if e = Ident ''nil'' then Ident nm else e)"
  by (cases e) (auto simp: renameNil_result_def)

text \<open>
  Claim C5. The handlers of \<^verbatim>\<open>Load\<close> and \<^verbatim>\<open>LoadAndDelete\<close> rewrite the results of the
  return statements of the body: each result that is the identifier \<^verbatim>\<open>nil\<close> becomes the
  first name of the first result field of the function, and every other result stays. (In
  the template both functions return with a bare \<^verbatim>\<open>return\<close>.)
\<close>

theorem loadHandler_renames_nil_results:
  assumes "h = ''Load'' \<or> h = ''LoadAndDelete''"
    and "map_of Funcs h = Some handler"
    and "handler L g f = Inr f'"
  shows "\<exists>nm. firstResultName (Results f') = Inr nm \<and>
           returnResults_Body (Body f') =
             map (\<lambda>e. if e = Ident ''nil'' then Ident nm else e) (returnResults_Body (Body f))"
proof -
  from assms(1,2) have "handler = loadHandler"
    by (auto simp: Funcs_def)
  with assms(3) show ?thesis
    by (auto simp: loadHandler_def returnResults_renameNil renameNil_result_eq bindE_eq_Inr)
qed

text \<open>
  A \<^verbatim>\<open>Load\<close> written as in \<^verbatim>\<open>sync.Map\<close>, with \<^verbatim>\<open>return nil, false\<close> and
  \<^verbatim>\<open>return value, true\<close>.
\<close>

theorem loadHandler_renames_nil_results_witness:
  "map_of Funcs ''Load'' = Some loadHandler
   \<and> loadHandler exampleLib (exampleGen ''Map'' ''string'' ''int'')
       (fn_Load\<lparr>Body := Some
          [IfStmt None (UnaryExpr ''!'' (Ident ''ok''))
             [ReturnStmt [Ident ''nil'', Ident ''false'']] None,
           ReturnStmt [Ident ''value'', Ident ''true'']]\<rparr>) =
     Inr (fn_Load
       \<lparr>Params := FieldList [Field [''key''] (Ident ''string'')],
        Results := Some (FieldList [Field [''value''] (Ident ''int''), Field [''ok''] (Ident ''bool'')]),
        Body := Some
          [IfStmt None (UnaryExpr ''!'' (Ident ''ok''))
             [ReturnStmt [Ident ''value'', Ident ''false'']] None,
           ReturnStmt [Ident ''value'', Ident ''true'']]\<rparr>)"
proof -
  let ?g = "exampleGen ''Map'' ''string'' ''int''"
  let ?f = "fn_Load\<lparr>Body := Some
          [IfStmt None (UnaryExpr ''!'' (Ident ''ok''))
             [ReturnStmt [Ident ''nil'', Ident ''false'']] None,
           ReturnStmt [Ident ''value'', Ident ''true'']]\<rparr>"
  let ?f' = "fn_Load
       \<lparr>Params := FieldList [Field [''key''] (Ident ''string'')],
        Results := Some (FieldList [Field [''value''] (Ident ''int''), Field [''ok''] (Ident ''bool'')]),
        Body := Some
          [IfStmt None (UnaryExpr ''!'' (Ident ''ok''))
             [ReturnStmt [Ident ''value'', Ident ''false'']] None,
           ReturnStmt [Ident ''value'', Ident ''true'']]\<rparr>"
  have look: "map_of Funcs ''Load'' = Some loadHandler"
    by (simp add: Funcs_def)
  have run: "loadHandler exampleLib ?g ?f = Inr ?f'"
    by (simp add: primitive_defs fn_Load_def exampleGen_def expr_example)
  from loadHandler_renames_nil_results [of "''Load''" loadHandler exampleLib ?g ?f ?f', OF _ look run]
  have "\<exists>nm. firstResultName (Results ?f') = Inr nm \<and>
           returnResults_Body (Body ?f') =
             map (\<lambda>e. if e = Ident ''nil'' then Ident nm else e) (returnResults_Body (Body ?f))"
    by simp
  with look run show ?thesis by simp
qed

subsection \<open>Allocations of keys and values\<close>

text \<open>
  Claim C6, as the code has it. In an assignment whose first right-hand side is a call of
  \<^verbatim>\<open>make\<close> and whose first left-hand side is an identifier, the element type of the
  allocated slice becomes the key type when that identifier is \<^verbatim>\<open>keys\<close>, and the value
  type for every other name, \<^verbatim>\<open>values\<close> among them.
\<close>

theorem renameMapKeysValues_by_lhs_name:
  assumes "expr L (key g) = Inr ek" and "expr L (value' g) = Inr ev"
  shows "renameMapKeysValues_stmt L g
           (AssignStmt (Ident lhs # ls) tok
              (CallExpr (Ident ''make'') (ArrayType None placeholder # args) # rs))
         = Inr (AssignStmt (Ident lhs # ls) tok
                  (CallExpr (Ident ''make'')
                     (ArrayType None (if lhs = ''keys'' then ek else ev) # args) # rs))"
  using assms
  by (simp add: renameMapKeysValues_assign_def Apply_Expr_def replaceValue_def replaceKey_def
      replaceIface_def)

theorem renameMapKeysValues_by_lhs_name_witness:
  "renameMapKeysValues_stmt exampleLib (exampleGen ''Map'' ''string'' ''int'')
     (AssignStmt [Ident ''keys''] ''=''
        [CallExpr (Ident ''make'') [ArrayType None placeholder, Ident ''length'']])
   = Inr (AssignStmt [Ident ''keys''] ''=''
            [CallExpr (Ident ''make'') [ArrayType None (Ident ''string''), Ident ''length'']])
   \<and> renameMapKeysValues_stmt exampleLib (exampleGen ''Map'' ''string'' ''int'')
     (AssignStmt [Ident ''values''] ''=''
        [CallExpr (Ident ''make'') [ArrayType None placeholder, Ident ''length'']])
   = Inr (AssignStmt [Ident ''values''] ''=''
            [CallExpr (Ident ''make'') [ArrayType None (Ident ''int''), Ident ''length'']])"
  using renameMapKeysValues_by_lhs_name [of exampleLib "exampleGen ''Map'' ''string'' ''int''"
      "Ident ''string''" "Ident ''int''" "''keys''" "[]" "''=''" "[Ident ''length'']" "[]"]
    renameMapKeysValues_by_lhs_name [of exampleLib "exampleGen ''Map'' ''string'' ''int''"
      "Ident ''string''" "Ident ''int''" "''values''" "[]" "''=''" "[Ident ''length'']" "[]"]
  by (simp add: exampleGen_def expr_example)

text \<open>
  The claim as written, that the value type is substituted exactly when the name is
  \<^verbatim>\<open>values\<close>, fails for the assignment \<^verbatim>\<open>xs := make([]interface{}, n)\<close>.
\<close>

theorem renameMapKeysValues_other_name_counterexample:
  "''xs'' \<noteq> ''values'' \<and>
   renameMapKeysValues_stmt exampleLib (exampleGen ''Map'' ''string'' ''int'')
     (AssignStmt [Ident ''xs''] '':=''
        [CallExpr (Ident ''make'') [ArrayType None placeholder, Ident ''n'']])
   = Inr (AssignStmt [Ident ''xs''] '':=''
            [CallExpr (Ident ''make'') [ArrayType None (Ident ''int''), Ident ''n'']])"
  by (simp add: renameMapKeysValues_assign_def Apply_Expr_def replaceValue_def replaceKey_def
      replaceIface_def exampleGen_def expr_example)

subsection \<open>Renaming twice\<close>

lemma rename_idem_expr:
  assumes "\<And>n. rename_Ident t (rename_Ident t n) = rename_Ident t n"
  shows "rename_expr t (rename_expr t e) = rename_expr t e"
    and "rename_Field t (rename_Field t f) = rename_Field t f"
    and "rename_FieldList t (rename_FieldList t l) = rename_FieldList t l"
  by (induction e and f and l)
    (auto simp: assms option.map_comp comp_def intro!: map_option_idem)

lemma rename_idem_stmt:
  assumes "\<And>n. rename_Ident t (rename_Ident t n) = rename_Ident t n"
  shows "rename_stmt t (rename_stmt t s) = rename_stmt t s"
  by (induction s)
    (auto simp: assms rename_idem_expr option.map_comp comp_def intro!: map_option_idem)

lemma rename_idem:
  assumes "\<And>n. rename_Ident t (rename_Ident t n) = rename_Ident t n"
  shows "rename (rename f t) t = rename f t"
proof -
  have spec: "rename_spec t (rename_spec t s) = rename_spec t s" for s
    by (cases s)
      (auto simp: assms rename_idem_expr option.map_comp comp_def intro!: map_option_idem)
  have decl: "rename_decl t (rename_decl t d) = rename_decl t d" for d
    by (cases d)
      (auto simp: assms spec rename_FuncDecl_def rename_idem_expr rename_idem_stmt
        option.map_comp comp_def intro!: map_option_idem)
  show ?thesis
    by (simp add: rename_def assms decl)
qed

lemma renameTable_idem:
  assumes "name g \<notin> {''entry'', ''readOnly'', ''expunged'', ''newEntry''}"
  shows "rename_Ident (renameTable L g) (rename_Ident (renameTable L g) n) =
         rename_Ident (renameTable L g) n"
  using assms by (auto simp: rename_Ident_def renameTable_def)

text \<open>
  Claim C7, as the code has it. The new name of \<^verbatim>\<open>Map\<close> is the output name itself. When
  that is one of the other four keys of the table, a second pass renames it again. For
  every other output name, and every tree, a second pass changes nothing, whatever
  \<^verbatim>\<open>strings.Title\<close> makes of the name.
\<close>

theorem rename_twice:
  assumes "name g \<notin> {''entry'', ''readOnly'', ''expunged'', ''newEntry''}"
  shows "rename (rename f (renameTable L g)) (renameTable L g) = rename f (renameTable L g)"
  by (rule rename_idem) (rule renameTable_idem [OF assms])

theorem rename_twice_witness:
  "''Counter'' \<notin> {''entry'', ''readOnly'', ''expunged'', ''newEntry''}
   \<and> rename (rename (ParseFile_template False)
               (renameTable exampleLib (exampleGen ''Counter'' ''string'' ''int'')))
        (renameTable exampleLib (exampleGen ''Counter'' ''string'' ''int'')) =
      rename (ParseFile_template False)
        (renameTable exampleLib (exampleGen ''Counter'' ''string'' ''int''))"
  using rename_twice [of "exampleGen ''Counter'' ''string'' ''int''" "ParseFile_template False"
      exampleLib]
  by (simp add: exampleGen_def)

text \<open>
  With the output name \<^verbatim>\<open>entry\<close>, the first pass over the template renames the type
  \<^verbatim>\<open>Map\<close> to \<^verbatim>\<open>entry\<close> and the second pass renames it to \<^verbatim>\<open>entryEntry\<close>.
\<close>

theorem rename_twice_entry_counterexample:
  "rename (rename (ParseFile_template False)
            (renameTable exampleLib (exampleGen ''entry'' ''string'' ''int'')))
     (renameTable exampleLib (exampleGen ''entry'' ''string'' ''int''))
   \<noteq> rename (ParseFile_template False)
         (renameTable exampleLib (exampleGen ''entry'' ''string'' ''int''))"
proof
  assume "rename (rename (ParseFile_template False)
            (renameTable exampleLib (exampleGen ''entry'' ''string'' ''int'')))
     (renameTable exampleLib (exampleGen ''entry'' ''string'' ''int''))
   = rename (ParseFile_template False)
       (renameTable exampleLib (exampleGen ''entry'' ''string'' ''int''))"
  then have "Decls (rename (rename (ParseFile_template False)
            (renameTable exampleLib (exampleGen ''entry'' ''string'' ''int'')))
     (renameTable exampleLib (exampleGen ''entry'' ''string'' ''int''))) ! 1
   = Decls (rename (ParseFile_template False)
       (renameTable exampleLib (exampleGen ''entry'' ''string'' ''int''))) ! 1"
    by simp
  then show False
    by (simp add: rename_def ParseFile_template_def templateCode_def renameTable_def
        exampleGen_def rename_Ident_def exampleLib_def toUpperChar_def)
qed

subsection \<open>The command-line argument\<close>

text \<open>
  Claim C8. \<^verbatim>\<open>NewGenerator\<close> fails with a \<^verbatim>\<open>genError\<close> when the argument does not parse
  (the message carries the parser's error) and when it parses to anything but a map type
  (the message is \<^verbatim>\<open>invalid argument. expected map[T1]T2\<close>). When it parses to a map type,
  the generator's key and value are the printed texts of the key and of the value
  expression.
\<close>

theorem NewGenerator_argument:
  "(ParseExpr L arg = Inl err \<longrightarrow>
      NewGenerator L p oflag n arg = Inl (GenError ''parse expr: %s: %s'' [arg, err]))
   \<and> (ParseExpr L arg = Inr e \<and> (\<forall>k v. e \<noteq> MapType k v) \<longrightarrow>
      NewGenerator L p oflag n arg = Inl (GenError ''invalid argument. expected map[T1]T2'' []))
   \<and> (ParseExpr L arg = Inr (MapType k v) \<and> FormatNode L k = Inr ks \<and> FormatNode L v = Inr vs \<longrightarrow>
      (\<exists>g r. NewGenerator L p oflag n arg = Inr (g, r) \<and> key g = ks \<and> value' g = vs))"
  by (cases e) (auto simp: NewGenerator_def check_def Let_def)

theorem NewGenerator_argument_witness:
  "NewGenerator exampleLib ''main'' [] ''Map'' ''map['' =
     Inl (GenError ''parse expr: %s: %s'' [''map['', ''syntax error''])
   \<and> NewGenerator exampleLib ''main'' [] ''Map'' ''[]int'' =
     Inl (GenError ''invalid argument. expected map[T1]T2'' [])
   \<and> (\<exists>g r. NewGenerator exampleLib ''main'' [] ''Map'' ''map[string][]int'' = Inr (g, r)
        \<and> key g = ''string'' \<and> value' g = ''[]int'')"
  using NewGenerator_argument [of exampleLib "''map[''" "''syntax error''" "''main''" "[]"
      "''Map''" "Ident ''x''" "Ident ''x''" "Ident ''x''" "[]" "[]"]
    NewGenerator_argument [of exampleLib "''[]int''" "[]" "''main''" "[]"
      "''Map''" "ArrayType None (Ident ''int'')" "Ident ''x''" "Ident ''x''" "[]" "[]"]
    NewGenerator_argument [of exampleLib "''map[string][]int''" "[]" "''main''" "[]"
      "''Map''" "Ident ''x''" "Ident ''string''" "ArrayType None (Ident ''int'')"
      "''string''" "''[]int''"]
  by (simp add: exampleLib_def exampleParseExpr_def scanIdent_def isLetter_def isDigit_def)

subsection \<open>The two variants of the template\<close>



subsection \<open>General declarations in the walk\<close>

text \<open>
  Claim C10. The walk looks at the first spec of a general declaration only. When that is
  an import spec, the declaration and the registry stay as they are, with no lookup and no
  failure. Whatever the first spec is, the specs after it have no part in the outcome and
  come back untouched: the round gives what it gives for the first spec alone, with the
  other specs put back behind it.
\<close>

theorem mutateDecl_first_spec_only:
  "mutateDecl L g r (GenDecl tok (ImportSpec n path # rest)) =
     Inr (r, GenDecl tok (ImportSpec n path # rest))
   \<and> mutateDecl L g r (GenDecl tok (s # rest)) =
       map_sum id
         (\<lambda>(r', d). (r', case d of GenDecl tok' ss \<Rightarrow> GenDecl tok' (ss @ rest) | _ \<Rightarrow> d))
         (mutateDecl L g r (GenDecl tok [s]))"
  apply (cases s)
  apply (auto simp: mutateDecl_def expect_def map_sum_bindE
      split: option.splits list.splits prod.splits intro!: arg_cong2[where f=bindE])
  done

end
